theory Spec2Isabelle
  imports Complex_Main "HOL-Library.AList"
begin

section \<open>Runtime environment: clock, network and thrown values\<close>

text \<open>
  The program is asynchronous TypeScript on a single-threaded event loop. Each async
  function is modelled as a state transformer on the environment it runs in, returning
  either the thrown value (\<open>Inl\<close>) or the returned value (\<open>Inr\<close>). One call runs to
  completion before the next one starts (no other task is interleaved at an
  \<open>await\<close>). Times are \<open>Date.now()\<close> readings in milliseconds; all clock readings
  taken inside one synchronous stretch of code are the same reading. JavaScript numbers
  are idealised: counters and times as integers, prices and rates as rationals.
\<close>

type_synonym time = int

text \<open>The JSON bodies the two remote services answer with, and error bodies.\<close>

datatype unit_of_weight = Oz | G

record MetalPriceApiResponse =
  mp_metal :: string
  price_usd :: rat
  mp_currency :: string
  mp_timestamp :: string
  mp_unit :: unit_of_weight

record ExchangeRateApiResponse =
  base :: string
  date :: string
  rates :: "(string \<times> rat) list"

datatype payload =
    NoBody
  | ErrorBody "string option" "string option"
  | MetalBody MetalPriceApiResponse
  | RatesBody ExchangeRateApiResponse

record http_response =
  status :: int
  statusText :: string
  data :: payload
  headers :: "(string \<times> string) list"

text \<open>
  Values that are thrown. \<open>AxiosError\<close> is what the HTTP library rejects with: its
  \<open>response\<close> (present when the server answered with a non-2xx status), whether a
  \<open>request\<close> was made, its \<open>code\<close> and its \<open>message\<close>. \<open>ApiError\<close> is the
  normalised \<open>{message, status?, code?, details?}\<close> object of BaseApiClient.
\<close>

datatype thrown =
    JsError string
  | TypeError string
  | AxiosError "http_response option" bool "string option" string
  | ApiError string "int option" "string option" details
and details =
    DetailsData payload
  | DetailsRequest
  | DetailsError thrown

text \<open>What the server (or the network) does with one request.\<close>

datatype reply = Answered http_response | NoAnswer "string option"

datatype http_method = GET | POST | PUT | PATCH | DELETE

record env =
  now :: time
  requests :: "(http_method \<times> string) list"
  network :: "nat \<Rightarrow> http_method \<Rightarrow> string \<Rightarrow> reply \<times> time"

text \<open>
  \<open>requests\<close> logs every HTTP call issued, oldest first; \<open>network k m url\<close> is the
  outcome and the latency of the call issued after \<open>k\<close> earlier ones.
\<close>

type_synonym ('a, 'z) async = "'z env_scheme \<Rightarrow> (thrown + 'a) \<times> 'z env_scheme"

definition delay :: "int \<Rightarrow> 'z env_scheme \<Rightarrow> 'z env_scheme" where
  "delay ms w = w\<lparr>now := now w + max 0 ms\<rparr>"

section \<open>CircuitBreaker\<close>

datatype CircuitBreakerState = Closed | Open | HalfOpen

record CircuitBreakerConfig =
  failureThreshold :: int
  resetTimeout :: int
  monitoringPeriod :: int

record CircuitBreaker =
  state :: CircuitBreakerState
  failureCount :: nat
  successCount :: nat
  totalRequests :: nat
  lastFailureTime :: "time option"
  nextRetryTime :: "time option"
  monitoringWindow :: "(bool \<times> time) list"
  config :: CircuitBreakerConfig

record CircuitBreakerStats =
  stats_state :: CircuitBreakerState
  stats_failureCount :: nat
  stats_successCount :: nat
  stats_totalRequests :: nat
  stats_lastFailureTime :: "time option"
  stats_nextRetryTime :: "time option"

definition new_CircuitBreaker :: "CircuitBreakerConfig \<Rightarrow> CircuitBreaker" where
  "new_CircuitBreaker cfg =
     \<lparr>state = Closed, failureCount = 0, successCount = 0, totalRequests = 0,
      lastFailureTime = None, nextRetryTime = None, monitoringWindow = [], config = cfg\<rparr>"

definition getStats :: "CircuitBreaker \<Rightarrow> CircuitBreakerStats" where
  "getStats cb =
     \<lparr>stats_state = state cb, stats_failureCount = failureCount cb,
      stats_successCount = successCount cb, stats_totalRequests = totalRequests cb,
      stats_lastFailureTime = lastFailureTime cb, stats_nextRetryTime = nextRetryTime cb\<rparr>"

definition reset :: "CircuitBreaker \<Rightarrow> CircuitBreaker" where
  "reset cb =
     cb\<lparr>state := Closed, failureCount := 0, successCount := 0, totalRequests := 0,
        lastFailureTime := None, nextRetryTime := None, monitoringWindow := []\<rparr>"

definition forceOpen :: "time \<Rightarrow> CircuitBreaker \<Rightarrow> CircuitBreaker" where
  "forceOpen t cb =
     cb\<lparr>state := Open, lastFailureTime := Some t,
        nextRetryTime := Some (t + resetTimeout (config cb))\<rparr>"

definition forceClosed :: "CircuitBreaker \<Rightarrow> CircuitBreaker" where
  "forceClosed cb = cb\<lparr>state := Closed, failureCount := 0, nextRetryTime := None\<rparr>"

definition cleanupOldEntries :: "time \<Rightarrow> CircuitBreaker \<Rightarrow> CircuitBreaker" where
  "cleanupOldEntries t cb =
     (let cutoff = t - monitoringPeriod (config cb)
      in cb\<lparr>monitoringWindow := filter (\<lambda>entry. snd entry > cutoff) (monitoringWindow cb)\<rparr>)"

definition addToMonitoringWindow :: "time \<Rightarrow> bool \<Rightarrow> CircuitBreaker \<Rightarrow> CircuitBreaker" where
  "addToMonitoringWindow t success cb =
     cleanupOldEntries t (cb\<lparr>monitoringWindow := monitoringWindow cb @ [(success, t)]\<rparr>)"

text \<open>\<open>getFailureRate\<close> prunes the window as a side effect, so it returns the breaker too.\<close>

definition getFailureRate :: "time \<Rightarrow> CircuitBreaker \<Rightarrow> rat \<times> CircuitBreaker" where
  "getFailureRate t cb =
     (let cb' = cleanupOldEntries t cb
      in if length (monitoringWindow cb') = 0 then (0, cb')
         else (let failures = length (filter (\<lambda>entry. \<not> fst entry) (monitoringWindow cb'))
               in (of_nat failures / of_nat (length (monitoringWindow cb')), cb')))"

definition shouldOpenCircuit :: "time \<Rightarrow> CircuitBreaker \<Rightarrow> bool \<times> CircuitBreaker" where
  "shouldOpenCircuit t cb =
     (if int (failureCount cb) \<ge> failureThreshold (config cb) then (True, cb)
      else (let (failureRate, cb') = getFailureRate t cb
            in (failureRate \<ge> 1 / 2 \<and> length (monitoringWindow cb') \<ge> 10, cb')))"

definition shouldAttemptReset :: "time \<Rightarrow> CircuitBreaker \<Rightarrow> bool" where
  "shouldAttemptReset t cb = (case nextRetryTime cb of None \<Rightarrow> False | Some r \<Rightarrow> t \<ge> r)"

definition onSuccess :: "time \<Rightarrow> CircuitBreaker \<Rightarrow> CircuitBreaker" where
  "onSuccess t cb =
     (let cb1 = addToMonitoringWindow t True (cb\<lparr>successCount := successCount cb + 1\<rparr>)
      in if state cb1 = HalfOpen
         then cb1\<lparr>state := Closed, failureCount := 0, nextRetryTime := None\<rparr>
         else cb1)"

definition onFailure :: "time \<Rightarrow> CircuitBreaker \<Rightarrow> CircuitBreaker" where
  "onFailure t cb =
     (let cb1 = addToMonitoringWindow t False
                  (cb\<lparr>failureCount := failureCount cb + 1, lastFailureTime := Some t\<rparr>);
          (should, cb2) = shouldOpenCircuit t cb1
      in if should
         then cb2\<lparr>state := Open, nextRetryTime := Some (t + resetTimeout (config cb2))\<rparr>
         else cb2)"

text \<open>
  The counters start at 0 and are only incremented or set back to 0, so they are
  naturals. The test at the head of \<open>execute\<close>: \<open>None\<close> when the call is rejected, otherwise the
  breaker as the inner function finds it (half-open if the cooldown has elapsed, and
  \<open>totalRequests\<close> incremented).
\<close>

definition admit :: "time \<Rightarrow> CircuitBreaker \<Rightarrow> CircuitBreaker option" where
  "admit t cb =
     (if state cb = Open
      then (if shouldAttemptReset t cb
            then Some (cb\<lparr>state := HalfOpen, totalRequests := totalRequests cb + 1\<rparr>)
            else None)
      else Some (cb\<lparr>totalRequests := totalRequests cb + 1\<rparr>))"

definition circuit_open_error :: thrown where
  "circuit_open_error = JsError ''Circuit breaker is open - request rejected''"

definition execute ::
  "CircuitBreaker \<Rightarrow> ('a, 'z) async \<Rightarrow> 'z env_scheme \<Rightarrow>
     (thrown + 'a) \<times> CircuitBreaker \<times> 'z env_scheme" where
  "execute cb fn w =
     (case admit (now w) cb of
        None \<Rightarrow> (Inl circuit_open_error, cb, w)
      | Some cb1 \<Rightarrow>
          (case fn w of
             (Inr result, w') \<Rightarrow> (Inr result, onSuccess (now w') cb1, w')
           | (Inl error, w') \<Rightarrow> (Inl error, onFailure (now w') cb1, w')))"

section \<open>CircuitBreakerFactory\<close>

text \<open>
  Breakers are objects with identity: the store holds every breaker constructed, and a
  reference is its index in the store.
\<close>

type_synonym breaker_ref = nat

record CircuitBreakerFactory =
  instances :: "string \<rightharpoonup> breaker_ref"
  store :: "CircuitBreaker list"

definition default_breaker_config :: CircuitBreakerConfig where
  "default_breaker_config =
     \<lparr>failureThreshold = 5, resetTimeout = 60000, monitoringPeriod = 300000\<rparr>"

definition getInstance ::
  "string \<Rightarrow> CircuitBreakerConfig option \<Rightarrow> CircuitBreakerFactory \<Rightarrow>
     breaker_ref \<times> CircuitBreakerFactory" where
  "getInstance name cfg f =
     (let c = (case cfg of None \<Rightarrow> default_breaker_config | Some c \<Rightarrow> c)
      in case instances f name of
           Some r \<Rightarrow> (r, f)
         | None \<Rightarrow>
             (let r = length (store f)
              in (r, f\<lparr>instances := (instances f)(name \<mapsto> r),
                       store := store f @ [new_CircuitBreaker c]\<rparr>)))"

definition removeInstance :: "string \<Rightarrow> CircuitBreakerFactory \<Rightarrow> bool \<times> CircuitBreakerFactory" where
  "removeInstance name f =
     (instances f name \<noteq> None, f\<lparr>instances := (instances f)(name := None)\<rparr>)"

section \<open>BaseApiClient\<close>

record RetryConfig =
  retries :: int
  retryDelay :: int
  retryCondition :: "(thrown \<Rightarrow> bool) option"

text \<open>
  The class an object was constructed as. A method called through \<open>this\<close> is looked up
  on the object when the call runs, so code written in BaseApiClient reaches a method
  that a subclass declares under the same name (\<open>private\<close> is not there at run time).
\<close>

datatype api_class = BaseApiClient_class | ExchangeRateApiClient_class | MetalPriceApiClient_class

record BaseApiClient =
  runtime_class :: api_class
  baseURL :: string
  timeout :: int
  defaultHeaders :: "(string \<times> string) list"
  retryConfig :: RetryConfig

record ApiClientConfig =
  cfg_baseURL :: string
  cfg_timeout :: "int option"
  cfg_retries :: "int option"
  cfg_retryDelay :: "int option"
  cfg_headers :: "(string \<times> string) list"

text \<open>
  Property reads on a caught value, which the code does without knowing its type. An
  \<open>ApiError\<close> has the properties \<open>message\<close>, \<open>status\<close>, \<open>code\<close> and \<open>details\<close>,
  and neither \<open>response\<close> nor \<open>request\<close>.
\<close>

fun response_of :: "thrown \<Rightarrow> http_response option" where
  "response_of (AxiosError r q c m) = r"
| "response_of _ = None"

fun request_of :: "thrown \<Rightarrow> bool" where
  "request_of (AxiosError r q c m) = q"
| "request_of _ = False"

fun code_of :: "thrown \<Rightarrow> string option" where
  "code_of (AxiosError r q c m) = c"
| "code_of (ApiError m s c d) = c"
| "code_of _ = None"

fun message_of :: "thrown \<Rightarrow> string" where
  "message_of (JsError m) = m"
| "message_of (TypeError m) = m"
| "message_of (AxiosError r q c m) = m"
| "message_of (ApiError m s c d) = m"

fun status_of :: "thrown \<Rightarrow> int option" where
  "status_of (ApiError m s c d) = s"
| "status_of _ = None"

fun body_message :: "payload \<Rightarrow> string option" where
  "body_message (ErrorBody m c) = m"
| "body_message _ = None"

fun body_code :: "payload \<Rightarrow> string option" where
  "body_code (ErrorBody m c) = c"
| "body_code _ = None"

text \<open>\<open>a || b\<close> on strings that may be undefined: the first one that is not empty.\<close>

definition or_else :: "string option \<Rightarrow> string \<Rightarrow> string" where
  "or_else a b = (case a of None \<Rightarrow> b | Some s \<Rightarrow> if s = [] then b else s)"

definition default_retryCondition :: "thrown \<Rightarrow> bool" where
  "default_retryCondition error =
     (response_of error = None \<or>
      (case response_of error of
         None \<Rightarrow> False
       | Some r \<Rightarrow> status r \<ge> 500 \<and> status r < 600) \<or>
      code_of error = Some ''ECONNABORTED'')"

definition number_or :: "int option \<Rightarrow> int \<Rightarrow> int" where
  "number_or a b = (case a of None \<Rightarrow> b | Some n \<Rightarrow> if n = 0 then b else n)"

definition new_BaseApiClient :: "ApiClientConfig \<Rightarrow> BaseApiClient" where
  "new_BaseApiClient cfg =
     \<lparr>runtime_class = BaseApiClient_class,
      baseURL = cfg_baseURL cfg,
      timeout = number_or (cfg_timeout cfg) 30000,
      defaultHeaders = (''Content-Type'', ''application/json'') # cfg_headers cfg,
      retryConfig =
        \<lparr>retries = number_or (cfg_retries cfg) 3,
         retryDelay = number_or (cfg_retryDelay cfg) 1000,
         retryCondition = Some default_retryCondition\<rparr>\<rparr>"

definition transformResponse :: "http_response \<Rightarrow> http_response" where
  "transformResponse response =
     \<lparr>status = status response, statusText = statusText response,
      data = data response, headers = headers response\<rparr>"

definition transformError :: "thrown \<Rightarrow> thrown" where
  "transformError error =
     (case response_of error of
        Some r \<Rightarrow>
          ApiError (or_else (body_message (data r)) (or_else (Some (statusText r)) ''Request failed''))
            (Some (status r)) (body_code (data r)) (DetailsData (data r))
      | None \<Rightarrow>
          if request_of error
          then ApiError ''Network error - no response received'' None (Some ''NETWORK_ERROR'')
                 DetailsRequest
          else ApiError (or_else (Some (message_of error)) ''Unknown error occurred'') None
                 (Some ''UNKNOWN_ERROR'') (DetailsError error))"

text \<open>
  The HTTP library: the request is issued and logged, the clock moves by the latency,
  and an answer with a status outside \<open>[200,300)\<close>, or no answer, is a rejection.
\<close>

definition axios_send :: "http_method \<Rightarrow> string \<Rightarrow> (http_response, 'z) async" where
  "axios_send m url w =
     (let (rep, latency) = network w (length (requests w)) m url;
          w' = delay latency (w\<lparr>requests := requests w @ [(m, url)]\<rparr>)
      in case rep of
           Answered r \<Rightarrow>
             if status r \<ge> 200 \<and> status r < 300 then (Inr r, w')
             else (Inl (AxiosError (Some r) True
                          (if status r \<ge> 400 \<and> status r < 500 then Some ''ERR_BAD_REQUEST''
                           else if status r \<ge> 500 \<and> status r < 600 then Some ''ERR_BAD_RESPONSE''
                           else None)
                          ''Request failed''), w')
         | NoAnswer c \<Rightarrow> (Inl (AxiosError None True c ''Network Error''), w'))"

text \<open>
  \<open>MetalPriceApiClient.transformResponse(data)\<close> when \<open>data\<close> is a response object
  and not a body: \<open>data.unit\<close> and \<open>data.price_usd\<close> are undefined, which gives
  two NaN prices without an error, and then \<open>data.metal.toLowerCase()\<close> reads a
  property of undefined. The call throws this TypeError and returns nothing.
\<close>

definition metal_transformResponse_of_response :: "http_response \<Rightarrow> thrown" where
  "metal_transformResponse_of_response response =
     TypeError ''Cannot read properties of undefined (reading toLowerCase)''"

text \<open>
  \<open>this.transformResponse(response)\<close> as written in BaseApiClient (in the response
  interceptor and in \<open>executeWithRetry\<close>), for the object \<open>c\<close> it runs on.
\<close>

definition this_transformResponse ::
  "'b BaseApiClient_scheme \<Rightarrow> http_response \<Rightarrow> thrown + http_response" where
  "this_transformResponse c response =
     (case runtime_class c of
        MetalPriceApiClient_class \<Rightarrow> Inl (metal_transformResponse_of_response response)
      | _ \<Rightarrow> Inr (transformResponse response))"

text \<open>
  \<open>this.client.get\<close> and its siblings: the library call with the two interceptors of
  \<open>setupInterceptors\<close> applied to its outcome. An error thrown by the handler of a
  fulfilled response rejects the call as it is; only the library's own rejections pass
  through \<open>transformError\<close>.
\<close>

definition client_request ::
  "'b BaseApiClient_scheme \<Rightarrow> http_method \<Rightarrow> string \<Rightarrow> (http_response, 'z) async" where
  "client_request c m url w =
     (case axios_send m (baseURL c @ url) w of
        (Inr response, w') \<Rightarrow>
          (case this_transformResponse c response of
             Inr transformed \<Rightarrow> (Inr transformed, w')
           | Inl error \<Rightarrow> (Inl error, w'))
      | (Inl error, w') \<Rightarrow> (Inl (transformError error), w'))"

text \<open>
  The loop of \<open>executeWithRetry\<close>, from attempt \<open>attempt\<close> on, with the receiver's
  \<open>this.transformResponse\<close> as \<open>transform\<close>. What \<open>try\<close> encloses is the
  operation and the transformation of its response, so an error of either is caught.
  \<open>lastError\<close> is undefined until an attempt has failed;
  \<open>transformError(undefined)\<close> is a TypeError.
\<close>

function executeWithRetry_from ::
  "(http_response \<Rightarrow> thrown + http_response) \<Rightarrow> RetryConfig \<Rightarrow>
     (http_response, 'z) async \<Rightarrow> int \<Rightarrow> thrown option \<Rightarrow> (http_response, 'z) async" where
  "executeWithRetry_from transform rc operation attempt lastError w =
     (if attempt \<le> retries rc
      then (let (outcome, w') = operation w;
                attempted = (case outcome of
                               Inr response \<Rightarrow> transform response
                             | Inl error \<Rightarrow> Inl error)
            in case attempted of
                 Inr transformed \<Rightarrow> (Inr transformed, w')
               | Inl error \<Rightarrow>
                   if attempt = retries rc \<or>
                      \<not> (case retryCondition rc of None \<Rightarrow> False | Some cond \<Rightarrow> cond error)
                   then (Inl (transformError error), w')
                   else executeWithRetry_from transform rc operation (attempt + 1) (Some error)
                          (delay (retryDelay rc * (attempt + 1)) w'))
      else (case lastError of
              None \<Rightarrow> (Inl (TypeError ''Cannot read properties of undefined''), w)
            | Some error \<Rightarrow> (Inl (transformError error), w)))"
  by pat_completeness auto
termination
  by (relation "measure (\<lambda>(transform, rc, operation, attempt, lastError, w).
                  nat (retries rc + 1 - attempt))")
     auto

definition executeWithRetry ::
  "'b BaseApiClient_scheme \<Rightarrow> (http_response, 'z) async \<Rightarrow> (http_response, 'z) async" where
  "executeWithRetry c operation =
     executeWithRetry_from (this_transformResponse c) (retryConfig c) operation 0 None"

definition get :: "'b BaseApiClient_scheme \<Rightarrow> string \<Rightarrow> (http_response, 'z) async" where
  "get c url = executeWithRetry c (client_request c GET url)"

definition post :: "'b BaseApiClient_scheme \<Rightarrow> string \<Rightarrow> (http_response, 'z) async" where
  "post c url = executeWithRetry c (client_request c POST url)"

definition put :: "'b BaseApiClient_scheme \<Rightarrow> string \<Rightarrow> (http_response, 'z) async" where
  "put c url = executeWithRetry c (client_request c PUT url)"

definition patch :: "'b BaseApiClient_scheme \<Rightarrow> string \<Rightarrow> (http_response, 'z) async" where
  "patch c url = executeWithRetry c (client_request c PATCH url)"

definition delete :: "'b BaseApiClient_scheme \<Rightarrow> string \<Rightarrow> (http_response, 'z) async" where
  "delete c url = executeWithRetry c (client_request c DELETE url)"

definition setRetryConfig :: "RetryConfig \<Rightarrow> 'b BaseApiClient_scheme \<Rightarrow> 'b BaseApiClient_scheme" where
  "setRetryConfig rc c = c\<lparr>retryConfig := rc\<rparr>"

section \<open>EventBus\<close>

text \<open>
  A handler runs in the environment and either completes or throws (or returns a
  promise that rejects): \<open>Some error\<close>. Handlers here act on the environment only.
  The two \<open>Map\<close>s of subscriptions keep insertion order, so they are association
  lists; \<open>uuidv4()\<close> is supplied by the caller of \<open>subscribe\<close>. Console output is
  not modelled.
\<close>

record DomainEvent =
  event_id :: string
  event_type :: string
  occurredAt :: time
  aggregateId :: string
  version :: int
  event_data :: string

type_synonym 'z EventHandler = "DomainEvent \<Rightarrow> 'z env_scheme \<Rightarrow> thrown option \<times> 'z env_scheme"

record 'z EventSubscription =
  subscription_id :: string
  eventType :: string
  handler :: "'z EventHandler"

record 'z EventBusOptions =
  maxRetries :: int
  bus_retryDelay :: int
  enableLogging :: bool
  errorHandler :: "thrown \<Rightarrow> DomainEvent \<Rightarrow> 'z env_scheme \<Rightarrow> 'z env_scheme"

record 'z PartialEventBusOptions =
  opt_maxRetries :: "int option"
  opt_retryDelay :: "int option"
  opt_enableLogging :: "bool option"
  opt_errorHandler :: "(thrown \<Rightarrow> DomainEvent \<Rightarrow> 'z env_scheme \<Rightarrow> 'z env_scheme) option"

record QueueItem =
  event :: DomainEvent
  retryCount :: int

record 'z EventBus =
  subscriptions :: "(string \<times> (string \<times> 'z EventSubscription) list) list"
  eventQueue :: "QueueItem list"
  processing :: bool
  options :: "'z EventBusOptions"

definition new_EventBus :: "'z PartialEventBusOptions \<Rightarrow> 'z EventBus" where
  "new_EventBus opts =
     \<lparr>subscriptions = [], eventQueue = [], processing = False,
      options =
        \<lparr>maxRetries = (case opt_maxRetries opts of None \<Rightarrow> 3 | Some n \<Rightarrow> n),
         bus_retryDelay = (case opt_retryDelay opts of None \<Rightarrow> 1000 | Some n \<Rightarrow> n),
         enableLogging = (case opt_enableLogging opts of None \<Rightarrow> False | Some b \<Rightarrow> b),
         errorHandler = (case opt_errorHandler opts of None \<Rightarrow> (\<lambda>error ev w. w) | Some h \<Rightarrow> h)\<rparr>\<rparr>"

definition unsubscribe :: "string \<Rightarrow> string \<Rightarrow> 'z EventBus \<Rightarrow> 'z EventBus" where
  "unsubscribe evType subscriptionId bus =
     (case map_of (subscriptions bus) evType of
        None \<Rightarrow> bus
      | Some typeSubscriptions \<Rightarrow>
          (let remaining = AList.delete subscriptionId typeSubscriptions
           in if length remaining = 0
              then bus\<lparr>subscriptions := AList.delete evType (subscriptions bus)\<rparr>
              else bus\<lparr>subscriptions := AList.update evType remaining (subscriptions bus)\<rparr>))"

definition subscribe ::
  "string \<Rightarrow> string \<Rightarrow> 'z EventHandler \<Rightarrow> 'z EventBus \<Rightarrow> 'z EventSubscription \<times> 'z EventBus" where
  "subscribe subscriptionId evType h bus =
     (let subscription = \<lparr>subscription_id = subscriptionId, eventType = evType, handler = h\<rparr>;
          typeSubscriptions = (case map_of (subscriptions bus) evType of None \<Rightarrow> [] | Some s \<Rightarrow> s)
      in (subscription,
          bus\<lparr>subscriptions :=
                AList.update evType (AList.update subscriptionId subscription typeSubscriptions)
                  (subscriptions bus)\<rparr>))"

definition getSubscribers :: "string \<Rightarrow> 'z EventBus \<Rightarrow> 'z EventSubscription list" where
  "getSubscribers evType bus =
     (case map_of (subscriptions bus) evType of None \<Rightarrow> [] | Some s \<Rightarrow> map snd s)"

text \<open>\<open>executeHandler\<close>: a handler's error goes to the error handler and is thrown again.\<close>

definition executeHandler ::
  "'z EventBus \<Rightarrow> 'z EventHandler \<Rightarrow> DomainEvent \<Rightarrow> 'z env_scheme \<Rightarrow> thrown option \<times> 'z env_scheme" where
  "executeHandler bus h ev w =
     (case h ev w of
        (None, w') \<Rightarrow> (None, w')
      | (Some error, w') \<Rightarrow> (Some error, errorHandler (options bus) error ev w'))"

text \<open>
  \<open>Promise.allSettled\<close> over the handlers' promises: every handler runs, in subscription
  order, and the outcome of each is collected; the combined promise never rejects.
\<close>

fun allSettled ::
  "('z env_scheme \<Rightarrow> thrown option \<times> 'z env_scheme) list \<Rightarrow> 'z env_scheme \<Rightarrow>
     thrown option list \<times> 'z env_scheme" where
  "allSettled [] w = ([], w)"
| "allSettled (p # ps) w =
     (let (r, w1) = p w; (rs, w2) = allSettled ps w1 in (r # rs, w2))"

definition publishSync :: "DomainEvent \<Rightarrow> 'z EventBus \<Rightarrow> (unit, 'z) async" where
  "publishSync ev bus w =
     (case map_of (subscriptions bus) (event_type ev) of
        None \<Rightarrow> (Inr (), w)
      | Some subs \<Rightarrow>
          if length subs = 0 then (Inr (), w)
          else (let promises = map (\<lambda>subscription. executeHandler bus (handler (snd subscription)) ev) subs;
                    (settled, w') = allSettled promises w
                in (Inr (), w')))"

definition handleEventError ::
  "thrown \<Rightarrow> QueueItem \<Rightarrow> 'z EventBus \<Rightarrow> 'z env_scheme \<Rightarrow> 'z EventBus \<times> 'z env_scheme" where
  "handleEventError error item bus w =
     (if retryCount item < maxRetries (options bus)
      then (let item' = item\<lparr>retryCount := retryCount item + 1\<rparr>;
                w' = delay (bus_retryDelay (options bus) * retryCount item') w
            in (bus\<lparr>eventQueue := item' # eventQueue bus\<rparr>, w'))
      else (bus, errorHandler (options bus) error (event item) w))"

text \<open>The \<open>while\<close> loop of \<open>processQueue\<close>.\<close>

definition queue_measure :: "'z EventBus \<Rightarrow> nat" where
  "queue_measure bus =
     sum_list (map (\<lambda>item. Suc (nat (maxRetries (options bus) - retryCount item))) (eventQueue bus))"

function drainQueue :: "'z EventBus \<Rightarrow> 'z env_scheme \<Rightarrow> 'z EventBus \<times> 'z env_scheme" where
  "drainQueue bus w =
     (case eventQueue bus of
        [] \<Rightarrow> (bus, w)
      | item # rest \<Rightarrow>
          (let bus1 = bus\<lparr>eventQueue := rest\<rparr>
           in case publishSync (event item) bus1 w of
                (Inr u, w') \<Rightarrow> drainQueue bus1 w'
              | (Inl error, w') \<Rightarrow>
                  (let (bus2, w'') = handleEventError error item bus1 w'
                   in drainQueue bus2 w'')))"
  by pat_completeness auto
termination
proof (relation "measure (\<lambda>(bus, w). queue_measure bus)")
  show "wf (measure (\<lambda>(bus :: 'z EventBus, w :: 'z env_scheme). queue_measure bus))"
    by simp
next
  fix bus :: "'z EventBus" and w w' :: "'z env_scheme" and item rest bus1 x u
  assume "eventQueue bus = item # rest" and "bus1 = bus\<lparr>eventQueue := rest\<rparr>"
  then show "((bus1, w'), bus, w) \<in> measure (\<lambda>(bus, w). queue_measure bus)"
    by (simp add: queue_measure_def)
next
  fix bus :: "'z EventBus" and w w' w'' :: "'z env_scheme" and item rest bus1 x error y bus2
  assume q: "eventQueue bus = item # rest" and b1: "bus1 = bus\<lparr>eventQueue := rest\<rparr>"
    and h: "(bus2, w'') = y" "y = handleEventError error item bus1 w'"
  then show "((bus2, w''), bus, w) \<in> measure (\<lambda>(bus, w). queue_measure bus)"
    by (auto simp: queue_measure_def handleEventError_def Let_def split: if_splits)
qed

definition processQueue :: "'z EventBus \<Rightarrow> 'z env_scheme \<Rightarrow> 'z EventBus \<times> 'z env_scheme" where
  "processQueue bus w =
     (if processing bus then (bus, w)
      else (let (bus', w') = drainQueue (bus\<lparr>processing := True\<rparr>) w
            in (bus'\<lparr>processing := False\<rparr>, w')))"

definition publish :: "DomainEvent \<Rightarrow> 'z EventBus \<Rightarrow> 'z env_scheme \<Rightarrow> 'z EventBus \<times> 'z env_scheme" where
  "publish ev bus w =
     (let bus1 = bus\<lparr>eventQueue := eventQueue bus @ [\<lparr>event = ev, retryCount = 0\<rparr>]\<rparr>
      in if \<not> processing bus1 then processQueue bus1 w else (bus1, w))"


section \<open>Price clients\<close>

text \<open>
  A client object lives in the environment (\<open>self\<close>), since the functions passed to
  the circuit breaker write its cache. The breaker is a separate object, obtained from
  the factory by the constructor, and is passed next to the environment.
  MetalPriceApiClient declares methods \<open>transformResponse\<close> and \<open>delay\<close> under
  the names of BaseApiClient's: on a MetalPriceApiClient object BaseApiClient's calls
  of \<open>this.transformResponse\<close> run the subclass's method (\<open>this_transformResponse\<close>
  above); the two \<open>delay\<close> methods do the same thing.
\<close>

record 'o world = env +
  self :: 'o

datatype js_date = DateFromString string | DateAt time

definition lower_char :: "char \<Rightarrow> char" where
  "lower_char c =
     (case map_of (zip ''ABCDEFGHIJKLMNOPQRSTUVWXYZ'' ''abcdefghijklmnopqrstuvwxyz'') c of
        None \<Rightarrow> c
      | Some l \<Rightarrow> l)"

text \<open>\<open>String.prototype.toLowerCase\<close>, on ASCII letters.\<close>

definition toLowerCase :: "string \<Rightarrow> string" where
  "toLowerCase s = map lower_char s"

subsection \<open>MetalPriceApiClient\<close>

record MetalPrice =
  metal :: string
  pricePerOunce :: rat
  pricePerGram :: rat
  currency :: string
  lastUpdated :: js_date

record MetalPriceProviderConfig =
  apiKey :: "string option"
  baseUrl :: string
  cfg_rateLimit :: "int option"

record MetalPriceApiClient = BaseApiClient +
  circuitBreaker :: breaker_ref
  lastRequestTime :: time
  rateLimit :: int
  cache :: "string \<rightharpoonup> (MetalPrice \<times> time)"
  cacheTimeout :: int

definition default_metal_config :: MetalPriceProviderConfig where
  "default_metal_config =
     \<lparr>apiKey = None, baseUrl = ''https://api.metals.live/v1/spot'', cfg_rateLimit = Some 1000\<rparr>"

definition new_MetalPriceApiClient ::
  "CircuitBreakerFactory \<Rightarrow> MetalPriceProviderConfig option \<Rightarrow>
     MetalPriceApiClient \<times> CircuitBreakerFactory" where
  "new_MetalPriceApiClient factory cfg =
     (let c = (case cfg of None \<Rightarrow> default_metal_config | Some c \<Rightarrow> c);
          super = new_BaseApiClient
            \<lparr>cfg_baseURL = baseUrl c, cfg_timeout = Some 15000, cfg_retries = None,
             cfg_retryDelay = None,
             cfg_headers = (case apiKey c of
                              None \<Rightarrow> []
                            | Some k \<Rightarrow> if k = [] then [] else [(''X-API-Key'', k)])\<rparr>;
          (r, factory') = getInstance ''metal-prices''
            (Some \<lparr>failureThreshold = 3, resetTimeout = 120000, monitoringPeriod = 600000\<rparr>)
            factory
      in (BaseApiClient.extend (super\<lparr>runtime_class := MetalPriceApiClient_class\<rparr>)
            \<lparr>circuitBreaker = r, lastRequestTime = 0,
             rateLimit = number_or (cfg_rateLimit c) 1000,
             cache = Map.empty, cacheTimeout = 60 * 60 * 1000\<rparr>,
          factory'))"

text \<open>The same method on a response body, as \<open>fetchMetalPrice\<close> calls it.\<close>

definition metal_transformResponse :: "payload \<Rightarrow> thrown + MetalPrice" where
  "metal_transformResponse body =
     (case body of
        MetalBody d \<Rightarrow>
          Inr \<lparr>metal = toLowerCase (mp_metal d),
               pricePerOunce = (if mp_unit d = Oz then price_usd d
                                else price_usd d * (311035 / 10000)),
               pricePerGram = (if mp_unit d = G then price_usd d
                               else price_usd d / (311035 / 10000)),
               currency = mp_currency d,
               lastUpdated = DateFromString (mp_timestamp d)\<rparr>
      | _ \<Rightarrow> Inl (TypeError ''Cannot read properties of undefined''))"

definition getCachedPrice ::
  "string \<Rightarrow> bool \<Rightarrow> MetalPriceApiClient world \<Rightarrow> MetalPrice option" where
  "getCachedPrice m includeExpired w =
     (case cache (self w) m of
        None \<Rightarrow> None
      | Some cached \<Rightarrow>
          (let isExpired = now w - snd cached > cacheTimeout (self w)
           in if isExpired \<and> \<not> includeExpired then None else Some (fst cached)))"

definition cachePrice ::
  "string \<Rightarrow> MetalPrice \<Rightarrow> MetalPriceApiClient world \<Rightarrow> MetalPriceApiClient world" where
  "cachePrice m price w = w\<lparr>self := (self w)\<lparr>cache := (cache (self w))(m \<mapsto> (price, now w))\<rparr>\<rparr>"

definition enforceRateLimit :: "MetalPriceApiClient world \<Rightarrow> MetalPriceApiClient world" where
  "enforceRateLimit w =
     (let timeSinceLastRequest = now w - lastRequestTime (self w);
          w1 = (if timeSinceLastRequest < rateLimit (self w)
                then delay (rateLimit (self w) - timeSinceLastRequest) w else w)
      in w1\<lparr>self := (self w1)\<lparr>lastRequestTime := now w1\<rparr>\<rparr>)"

definition fetchMetalPrice ::
  "string \<Rightarrow> MetalPriceApiClient world \<Rightarrow>
     (thrown + MetalPrice option) \<times> MetalPriceApiClient world" where
  "fetchMetalPrice m w =
     (let catch = (\<lambda>error w1.
            if status_of error = Some 404
            then (case get (self w1) (''/spot/'' @ m) w1 of
                    (Inr response, w2) \<Rightarrow>
                      (case metal_transformResponse (data response) of
                         Inr price \<Rightarrow> (Inr (Some price), w2)
                       | Inl e \<Rightarrow> (Inr None, w2))
                  | (Inl e, w2) \<Rightarrow> (Inr None, w2))
            else (Inl error, w1))
      in case get (self w) (''/'' @ m) w of
           (Inr response, w1) \<Rightarrow>
             (case metal_transformResponse (data response) of
                Inr price \<Rightarrow> (Inr (Some price), w1)
              | Inl error \<Rightarrow> catch error w1)
         | (Inl error, w1) \<Rightarrow> catch error w1)"

text \<open>The function that \<open>getCurrentPrice\<close> hands to the circuit breaker.\<close>

definition fetch_and_cache ::
  "string \<Rightarrow> MetalPriceApiClient world \<Rightarrow>
     (thrown + MetalPrice option) \<times> MetalPriceApiClient world" where
  "fetch_and_cache normalizedMetal w =
     (case fetchMetalPrice normalizedMetal w of
        (Inr price, w') \<Rightarrow>
          (case price of
             Some p \<Rightarrow> (Inr price, cachePrice normalizedMetal p w')
           | None \<Rightarrow> (Inr price, w'))
      | (Inl error, w') \<Rightarrow> (Inl error, w'))"

definition getCurrentPrice ::
  "string \<Rightarrow> CircuitBreaker \<Rightarrow> MetalPriceApiClient world \<Rightarrow>
     (thrown + MetalPrice option) \<times> CircuitBreaker \<times> MetalPriceApiClient world" where
  "getCurrentPrice m cb w =
     (let normalizedMetal = toLowerCase m
      in case getCachedPrice normalizedMetal False w of
           Some cached \<Rightarrow> (Inr (Some cached), cb, w)
         | None \<Rightarrow>
             (let w1 = enforceRateLimit w
              in case execute cb (fetch_and_cache normalizedMetal) w1 of
                   (Inr price, cb', w2) \<Rightarrow> (Inr price, cb', w2)
                 | (Inl error, cb', w2) \<Rightarrow>
                     (Inr (getCachedPrice normalizedMetal True w2), cb', w2)))"

definition clearCache :: "MetalPriceApiClient world \<Rightarrow> MetalPriceApiClient world" where
  "clearCache w = w\<lparr>self := (self w)\<lparr>cache := Map.empty\<rparr>\<rparr>"

subsection \<open>ExchangeRateApiClient\<close>

record ExchangeRate =
  fromCurrency :: string
  toCurrency :: string
  rate :: rat
  rate_lastUpdated :: js_date
  provider :: string

record ExchangeRateConfig =
  xr_apiKey :: "string option"
  xr_baseUrl :: string
  cfg_baseCurrency :: "string option"

record ExchangeRateApiClient = BaseApiClient +
  rate_circuitBreaker :: breaker_ref
  rate_cache :: "string \<rightharpoonup> (ExchangeRate \<times> time)"
  rate_cacheTimeout :: int
  baseCurrency :: string

record Conversion =
  convertedAmount :: rat
  conversion_rate :: ExchangeRate

definition default_rate_config :: ExchangeRateConfig where
  "default_rate_config =
     \<lparr>xr_apiKey = None, xr_baseUrl = ''https://api.exchangerate-api.com/v4/latest'',
      cfg_baseCurrency = Some ''USD''\<rparr>"

definition new_ExchangeRateApiClient ::
  "CircuitBreakerFactory \<Rightarrow> ExchangeRateConfig option \<Rightarrow>
     ExchangeRateApiClient \<times> CircuitBreakerFactory" where
  "new_ExchangeRateApiClient factory cfg =
     (let c = (case cfg of None \<Rightarrow> default_rate_config | Some c \<Rightarrow> c);
          super = new_BaseApiClient
            \<lparr>cfg_baseURL = xr_baseUrl c, cfg_timeout = Some 10000, cfg_retries = None,
             cfg_retryDelay = None,
             cfg_headers = (case xr_apiKey c of
                              None \<Rightarrow> []
                            | Some k \<Rightarrow> if k = [] then [] else [(''Authorization'', ''Bearer '' @ k)])\<rparr>;
          (r, factory') = getInstance ''exchange-rates''
            (Some \<lparr>failureThreshold = 3, resetTimeout = 300000, monitoringPeriod = 900000\<rparr>)
            factory
      in (BaseApiClient.extend (super\<lparr>runtime_class := ExchangeRateApiClient_class\<rparr>)
            \<lparr>rate_circuitBreaker = r, rate_cache = Map.empty,
             rate_cacheTimeout = 60 * 60 * 1000,
             baseCurrency = or_else (cfg_baseCurrency c) ''USD''\<rparr>,
          factory'))"

definition getCachedRate ::
  "string \<Rightarrow> bool \<Rightarrow> ExchangeRateApiClient world \<Rightarrow> ExchangeRate option" where
  "getCachedRate cacheKey includeExpired w =
     (case rate_cache (self w) cacheKey of
        None \<Rightarrow> None
      | Some cached \<Rightarrow>
          (let isExpired = now w - snd cached > rate_cacheTimeout (self w)
           in if isExpired \<and> \<not> includeExpired then None else Some (fst cached)))"

definition cacheRate ::
  "string \<Rightarrow> ExchangeRate \<Rightarrow> ExchangeRateApiClient world \<Rightarrow> ExchangeRateApiClient world" where
  "cacheRate cacheKey r w =
     w\<lparr>self := (self w)\<lparr>rate_cache := (rate_cache (self w))(cacheKey \<mapsto> (r, now w))\<rparr>\<rparr>"

text \<open>\<open>response.data.rates[currency]\<close>: a TypeError when the body has no \<open>rates\<close>.\<close>

definition rate_in_body :: "payload \<Rightarrow> string \<Rightarrow> thrown + rat option" where
  "rate_in_body body cur =
     (case body of
        RatesBody d \<Rightarrow> Inr (map_of (rates d) cur)
      | _ \<Rightarrow> Inl (TypeError ''Cannot read properties of undefined''))"

definition body_date :: "payload \<Rightarrow> string" where
  "body_date body = (case body of RatesBody d \<Rightarrow> date d | _ \<Rightarrow> [])"

text \<open>A number that is truthy: defined and not zero.\<close>

definition truthy :: "rat option \<Rightarrow> bool" where
  "truthy r = (case r of None \<Rightarrow> False | Some x \<Rightarrow> x \<noteq> 0)"

definition getBaseRate ::
  "string \<Rightarrow> ExchangeRateApiClient world \<Rightarrow> rat option \<times> ExchangeRateApiClient world" where
  "getBaseRate cur w =
     (if cur = baseCurrency (self w) then (Some 1, w)
      else (case get (self w) (''/'' @ baseCurrency (self w) @ ''?symbols='' @ cur) w of
              (Inr response, w') \<Rightarrow>
                (case rate_in_body (data response) cur of
                   Inr r \<Rightarrow> (if truthy r then r else None, w')
                 | Inl e \<Rightarrow> (None, w'))
            | (Inl e, w') \<Rightarrow> (None, w')))"

text \<open>\<open>Promise.all\<close> of the two base-rate lookups, run one after the other.\<close>

definition fetchRateViaBase ::
  "string \<Rightarrow> string \<Rightarrow> ExchangeRateApiClient world \<Rightarrow>
     (thrown + ExchangeRate option) \<times> ExchangeRateApiClient world" where
  "fetchRateViaBase fromCur toCur w =
     (let (fromRate, w1) = getBaseRate fromCur w;
          (toRate, w2) = getBaseRate toCur w1
      in if \<not> truthy fromRate \<or> \<not> truthy toRate then (Inr None, w2)
         else (Inr (Some \<lparr>fromCurrency = fromCur, toCurrency = toCur,
                           rate = the toRate / the fromRate,
                           rate_lastUpdated = DateAt (now w2),
                           provider = ''calculated-via-base''\<rparr>), w2))"

definition fetchExchangeRate ::
  "string \<Rightarrow> string \<Rightarrow> ExchangeRateApiClient world \<Rightarrow>
     (thrown + ExchangeRate option) \<times> ExchangeRateApiClient world" where
  "fetchExchangeRate fromCur toCur w =
     (let catch = (\<lambda>error w1.
            if status_of error = Some 400 \<or> status_of error = Some 422
            then fetchRateViaBase fromCur toCur w1
            else (Inl error, w1))
      in case get (self w) (''/'' @ fromCur @ ''?symbols='' @ toCur) w of
           (Inr response, w1) \<Rightarrow>
             (case rate_in_body (data response) toCur of
                Inr r \<Rightarrow>
                  if \<not> truthy r then (Inr None, w1)
                  else (Inr (Some \<lparr>fromCurrency = fromCur, toCurrency = toCur, rate = the r,
                                    rate_lastUpdated = DateFromString (body_date (data response)),
                                    provider = ''exchange-rate-api''\<rparr>), w1)
              | Inl error \<Rightarrow> catch error w1)
         | (Inl error, w1) \<Rightarrow> catch error w1)"

definition fetch_and_cache_rate ::
  "string \<Rightarrow> string \<Rightarrow> ExchangeRateApiClient world \<Rightarrow>
     (thrown + ExchangeRate option) \<times> ExchangeRateApiClient world" where
  "fetch_and_cache_rate fromCur toCur w =
     (case fetchExchangeRate fromCur toCur w of
        (Inr r, w') \<Rightarrow>
          (case r of
             Some x \<Rightarrow> (Inr r, cacheRate (fromCur @ ''-'' @ toCur) x w')
           | None \<Rightarrow> (Inr r, w'))
      | (Inl error, w') \<Rightarrow> (Inl error, w'))"

definition getExchangeRate ::
  "string \<Rightarrow> string \<Rightarrow> CircuitBreaker \<Rightarrow> ExchangeRateApiClient world \<Rightarrow>
     (thrown + ExchangeRate option) \<times> CircuitBreaker \<times> ExchangeRateApiClient world" where
  "getExchangeRate fromCur toCur cb w =
     (let cacheKey = fromCur @ ''-'' @ toCur
      in case getCachedRate cacheKey False w of
           Some cached \<Rightarrow> (Inr (Some cached), cb, w)
         | None \<Rightarrow>
             (case execute cb (fetch_and_cache_rate fromCur toCur) w of
                (Inr r, cb', w2) \<Rightarrow> (Inr r, cb', w2)
              | (Inl error, cb', w2) \<Rightarrow> (Inr (getCachedRate cacheKey True w2), cb', w2)))"

definition convertCurrency ::
  "rat \<Rightarrow> string \<Rightarrow> string \<Rightarrow> CircuitBreaker \<Rightarrow> ExchangeRateApiClient world \<Rightarrow>
     (thrown + Conversion option) \<times> CircuitBreaker \<times> ExchangeRateApiClient world" where
  "convertCurrency amount fromCur toCur cb w =
     (if fromCur = toCur
      then (let sameRate = \<lparr>fromCurrency = fromCur, toCurrency = toCur, rate = 1,
                             rate_lastUpdated = DateAt (now w), provider = ''same-currency''\<rparr>
            in (Inr (Some \<lparr>convertedAmount = amount, conversion_rate = sameRate\<rparr>), cb, w))
      else (case getExchangeRate fromCur toCur cb w of
              (Inr r, cb', w') \<Rightarrow>
                (case r of
                   None \<Rightarrow> (Inr None, cb', w')
                 | Some x \<Rightarrow>
                     (Inr (Some \<lparr>convertedAmount = amount * rate x, conversion_rate = x\<rparr>),
                      cb', w'))
            | (Inl error, cb', w') \<Rightarrow> (Inl error, cb', w')))"


section \<open>DIContainer\<close>

text \<open>
  A token is a string, a symbol or a class (its constructor). Objects have identity: an
  object is either made outside the container (\<open>Given\<close>) or is the \<open>k\<close>-th object the
  container built (\<open>Built k\<close>). A factory is caller code: from the resolved
  dependencies it throws, makes a new object, or hands out an object that exists. The
  metadata that the decorators attach to a class is read through \<open>reflect\<close>.
\<close>

datatype token = TString string | TSymbol nat | TClass string

datatype ServiceLifecycle = Singleton | Transient | Scoped

datatype obj = Given string | Built nat

datatype made = Fresh | Existing obj

datatype ctor_ref = ObjectCtor | ClassCtor string

type_synonym factory = "obj list \<Rightarrow> thrown + made"

record ClassInfo =
  injectable :: "ServiceLifecycle option"
  paramtypes :: "token option list option"
  injectTokens :: "token option list option"
  constructor_throws :: "obj list \<Rightarrow> thrown option"

record ServiceDescriptor =
  token :: token
  factory :: "factory option"
  ctor :: "ctor_ref option"
  inst :: "obj option"
  lifecycle :: ServiceLifecycle
  dependencies :: "token list option"

text \<open>
  The argument of \<open>register\<close>. An object literal without a \<open>constructor\<close> property
  still answers \<open>descriptor.constructor\<close> with \<open>Object\<close>, which it inherits; one
  with \<open>constructor: undefined\<close> answers undefined.
\<close>

datatype 'a field = Absent | Undefined | Present 'a

record PartialServiceDescriptor =
  p_token :: "token option"
  p_factory :: "factory option"
  p_constructor :: "ctor_ref field"
  p_instance :: "obj option"
  p_lifecycle :: "ServiceLifecycle option"
  p_dependencies :: "token list option"

record ServiceScope =
  scope_id :: string
  scope_instances :: "token \<rightharpoonup> obj"

text \<open>
  Scopes are objects too: \<open>scopes\<close> and \<open>currentScope\<close> refer to them by their index
  in \<open>scope_store\<close>. \<open>allocated\<close> counts the objects built, and \<open>constructions\<close>
  records, for each factory or constructor call that returned, the descriptor's token
  and the object.
\<close>

record DIContainer =
  services :: "token \<rightharpoonup> ServiceDescriptor"
  singletons :: "token \<rightharpoonup> obj"
  scopes :: "string \<rightharpoonup> nat"
  scope_store :: "ServiceScope list"
  currentScope :: "nat option"
  allocated :: nat
  constructions :: "(token \<times> obj) list"

definition new_DIContainer :: DIContainer where
  "new_DIContainer =
     \<lparr>services = Map.empty, singletons = Map.empty, scopes = Map.empty, scope_store = [],
      currentScope = None, allocated = 0, constructions = []\<rparr>"

definition register :: "token \<Rightarrow> PartialServiceDescriptor \<Rightarrow> DIContainer \<Rightarrow> DIContainer" where
  "register tok descriptor c =
     (let fullDescriptor =
            \<lparr>token = (case p_token descriptor of None \<Rightarrow> tok | Some t \<Rightarrow> t),
             factory = p_factory descriptor,
             ctor = (case p_constructor descriptor of
                       Absent \<Rightarrow> Some ObjectCtor
                     | Undefined \<Rightarrow> None
                     | Present k \<Rightarrow> Some k),
             inst = p_instance descriptor,
             lifecycle = (case p_lifecycle descriptor of None \<Rightarrow> Transient | Some l \<Rightarrow> l),
             dependencies = p_dependencies descriptor\<rparr>
      in c\<lparr>services := (services c)(tok \<mapsto> fullDescriptor)\<rparr>)"

definition optional :: "'a option \<Rightarrow> 'a field" where
  "optional x = (case x of None \<Rightarrow> Undefined | Some v \<Rightarrow> Present v)"

definition registerSingleton ::
  "token \<Rightarrow> factory option \<Rightarrow> ctor_ref option \<Rightarrow> DIContainer \<Rightarrow> DIContainer" where
  "registerSingleton tok f k =
     register tok \<lparr>p_token = None, p_factory = f, p_constructor = optional k,
                   p_instance = None, p_lifecycle = Some Singleton, p_dependencies = None\<rparr>"

definition registerTransient ::
  "token \<Rightarrow> factory option \<Rightarrow> ctor_ref option \<Rightarrow> DIContainer \<Rightarrow> DIContainer" where
  "registerTransient tok f k =
     register tok \<lparr>p_token = None, p_factory = f, p_constructor = optional k,
                   p_instance = None, p_lifecycle = Some Transient, p_dependencies = None\<rparr>"

definition registerScoped ::
  "token \<Rightarrow> factory option \<Rightarrow> ctor_ref option \<Rightarrow> DIContainer \<Rightarrow> DIContainer" where
  "registerScoped tok f k =
     register tok \<lparr>p_token = None, p_factory = f, p_constructor = optional k,
                   p_instance = None, p_lifecycle = Some Scoped, p_dependencies = None\<rparr>"

definition registerInstance :: "token \<Rightarrow> obj \<Rightarrow> DIContainer \<Rightarrow> DIContainer" where
  "registerInstance tok i =
     register tok \<lparr>p_token = None, p_factory = None, p_constructor = Absent,
                   p_instance = Some i, p_lifecycle = Some Singleton, p_dependencies = None\<rparr>"

definition has :: "token \<Rightarrow> DIContainer \<Rightarrow> bool" where
  "has tok c = (services c tok \<noteq> None)"

text \<open>\<open>createScope\<close> with the scope id it ends up using (the given one, or a generated one).\<close>

definition createScope :: "string \<Rightarrow> DIContainer \<Rightarrow> nat \<times> DIContainer" where
  "createScope scopeId c =
     (let r = length (scope_store c)
      in (r, c\<lparr>scopes := (scopes c)(scopeId \<mapsto> r),
               scope_store := scope_store c @ [\<lparr>scope_id = scopeId, scope_instances = Map.empty\<rparr>]\<rparr>))"

definition withScope ::
  "string \<Rightarrow> (DIContainer \<Rightarrow> (thrown + 'a) \<times> DIContainer) \<Rightarrow> DIContainer \<Rightarrow>
     (thrown + 'a) \<times> DIContainer" where
  "withScope scopeId fn c =
     (let (scope, c1) = (case scopes c scopeId of
                           Some r \<Rightarrow> (r, c)
                         | None \<Rightarrow> createScope scopeId c);
          previousScope = currentScope c1;
          (result, c2) = fn (c1\<lparr>currentScope := Some scope\<rparr>)
      in (result, c2\<lparr>currentScope := previousScope\<rparr>))"

text \<open>The instance cached for a descriptor, by the first two tests of \<open>createInstance\<close>.\<close>

definition scoped_instance :: "DIContainer \<Rightarrow> token \<Rightarrow> obj option" where
  "scoped_instance c tok =
     (case currentScope c of
        None \<Rightarrow> None
      | Some r \<Rightarrow> if r < length (scope_store c) then scope_instances (scope_store c ! r) tok
                  else None)"

definition cached_instance :: "DIContainer \<Rightarrow> ServiceDescriptor \<Rightarrow> obj option" where
  "cached_instance c d =
     (if lifecycle d = Singleton \<and> singletons c (token d) \<noteq> None then singletons c (token d)
      else if lifecycle d = Scoped then scoped_instance c (token d)
      else None)"

text \<open>The last step of \<open>createInstance\<close>: store the instance by lifecycle.\<close>

definition store_instance :: "ServiceDescriptor \<Rightarrow> obj \<Rightarrow> DIContainer \<Rightarrow> DIContainer" where
  "store_instance d i c =
     (if lifecycle d = Singleton then c\<lparr>singletons := (singletons c)(token d \<mapsto> i)\<rparr>
      else if lifecycle d = Scoped then
        (case currentScope c of
           None \<Rightarrow> c
         | Some r \<Rightarrow>
             if r < length (scope_store c)
             then c\<lparr>scope_store := (scope_store c)
                      [r := (scope_store c ! r)\<lparr>scope_instances :=
                              (scope_instances (scope_store c ! r))(token d \<mapsto> i)\<rparr>]\<rparr>
             else c)
      else c)"

definition fresh_object :: "token \<Rightarrow> DIContainer \<Rightarrow> obj \<times> DIContainer" where
  "fresh_object tok c =
     (Built (allocated c),
      c\<lparr>allocated := Suc (allocated c),
        constructions := constructions c @ [(tok, Built (allocated c))]\<rparr>)"

text \<open>\<open>descriptor.factory(...dependencies)\<close>.\<close>

definition call_factory ::
  "token \<Rightarrow> factory \<Rightarrow> obj list \<Rightarrow> DIContainer \<Rightarrow> (thrown + obj) \<times> DIContainer" where
  "call_factory tok f deps c =
     (case f deps of
        Inl error \<Rightarrow> (Inl error, c)
      | Inr Fresh \<Rightarrow> (let (i, c') = fresh_object tok c in (Inr i, c'))
      | Inr (Existing i) \<Rightarrow> (Inr i, c\<lparr>constructions := constructions c @ [(tok, i)]\<rparr>))"

text \<open>
  \<open>new descriptor.constructor(...dependencies)\<close>. \<open>new Object(x)\<close> is \<open>x\<close> itself
  when \<open>x\<close> is an object.
\<close>

definition call_constructor ::
  "(string \<Rightarrow> ClassInfo) \<Rightarrow> token \<Rightarrow> ctor_ref \<Rightarrow> obj list \<Rightarrow> DIContainer \<Rightarrow>
     (thrown + obj) \<times> DIContainer" where
  "call_constructor reflect tok k deps c =
     (case k of
        ObjectCtor \<Rightarrow>
          (case deps of
             [] \<Rightarrow> (let (i, c') = fresh_object tok c in (Inr i, c'))
           | x # xs \<Rightarrow> (Inr x, c\<lparr>constructions := constructions c @ [(tok, x)]\<rparr>))
      | ClassCtor cls \<Rightarrow>
          (case constructor_throws (reflect cls) deps of
             Some error \<Rightarrow> (Inl error, c)
           | None \<Rightarrow> (let (i, c') = fresh_object tok c in (Inr i, c'))))"

text \<open>A token that is truthy: every token but the empty string.\<close>

definition truthy_token :: "token option \<Rightarrow> token option" where
  "truthy_token t = (case t of Some (TString []) \<Rightarrow> None | _ \<Rightarrow> t)"

text \<open>
  The tokens \<open>resolveDependencies\<close> resolves, in order: the declared \<open>dependencies\<close>
  if there are any, else what the metadata of the constructor gives
  (\<open>injectTokens[i] || paramTypes[i]\<close> for each \<open>i\<close> below \<open>paramTypes.length\<close>,
  skipping the falsy ones).
\<close>

definition nth_opt :: "'a option list \<Rightarrow> nat \<Rightarrow> 'a option" where
  "nth_opt xs i = (if i < length xs then xs ! i else None)"

definition dependency_tokens :: "(string \<Rightarrow> ClassInfo) \<Rightarrow> ServiceDescriptor \<Rightarrow> token list" where
  "dependency_tokens reflect d =
     (case dependencies d of
        Some deps \<Rightarrow> deps
      | None \<Rightarrow>
          (case ctor d of
             None \<Rightarrow> []
           | Some ObjectCtor \<Rightarrow> []
           | Some (ClassCtor cls) \<Rightarrow>
               (let paramTypes = (case paramtypes (reflect cls) of None \<Rightarrow> [] | Some ps \<Rightarrow> ps);
                    inject = (case injectTokens (reflect cls) of None \<Rightarrow> [] | Some ts \<Rightarrow> ts)
                in List.map_filter
                     (\<lambda>i. case truthy_token (nth_opt inject i) of
                             Some t \<Rightarrow> Some t
                           | None \<Rightarrow> truthy_token (nth_opt paramTypes i))
                     [0 ..< length paramTypes])))"

definition not_registered :: "token \<Rightarrow> thrown" where
  "not_registered tok = JsError ''Service not registered''"

definition nothing_provided :: "token \<Rightarrow> thrown" where
  "nothing_provided tok = JsError ''No factory, constructor, or instance provided''"

text \<open>
  \<open>resolve\<close>, \<open>createInstance\<close> and the loop of \<open>resolveDependencies\<close> call each
  other, and nothing bounds the depth of the calls. The first argument bounds it in the
  model: \<open>None\<close> means that the bound was reached, so a call that gives \<open>None\<close> for
  every bound is a call that does not return.
\<close>

fun resolve ::
    "nat \<Rightarrow> (string \<Rightarrow> ClassInfo) \<Rightarrow> token \<Rightarrow> DIContainer \<Rightarrow>
       ((thrown + obj) \<times> DIContainer) option"
  and createInstance ::
    "nat \<Rightarrow> (string \<Rightarrow> ClassInfo) \<Rightarrow> ServiceDescriptor \<Rightarrow> DIContainer \<Rightarrow>
       ((thrown + obj) \<times> DIContainer) option"
  and resolveDependencies ::
    "nat \<Rightarrow> (string \<Rightarrow> ClassInfo) \<Rightarrow> token list \<Rightarrow> obj list \<Rightarrow> DIContainer \<Rightarrow>
       ((thrown + obj list) \<times> DIContainer) option"
where
  "resolve 0 reflect tok c = None"
| "resolve (Suc n) reflect tok c =
     (case services c tok of
        None \<Rightarrow>
          (case tok of
             TClass cls \<Rightarrow>
               (case injectable (reflect cls) of
                  Some lc \<Rightarrow>
                    resolve n reflect tok
                      (register tok
                         \<lparr>p_token = None, p_factory = None,
                          p_constructor = Present (ClassCtor cls), p_instance = None,
                          p_lifecycle = Some lc, p_dependencies = None\<rparr> c)
                | None \<Rightarrow> Some (Inl (not_registered tok), c))
           | _ \<Rightarrow> Some (Inl (not_registered tok), c))
      | Some descriptor \<Rightarrow> createInstance n reflect descriptor c)"
| "createInstance 0 reflect d c = None"
| "createInstance (Suc n) reflect d c =
     (case cached_instance c d of
        Some i \<Rightarrow> Some (Inr i, c)
      | None \<Rightarrow>
          (case inst d of
             Some i \<Rightarrow> Some (Inr i, store_instance d i c)
           | None \<Rightarrow>
               (case factory d of
                  Some f \<Rightarrow>
                    (case resolveDependencies n reflect (dependency_tokens reflect d) [] c of
                       None \<Rightarrow> None
                     | Some (Inl error, c1) \<Rightarrow> Some (Inl error, c1)
                     | Some (Inr deps, c1) \<Rightarrow>
                         (case call_factory (token d) f deps c1 of
                            (Inl error, c2) \<Rightarrow> Some (Inl error, c2)
                          | (Inr i, c2) \<Rightarrow> Some (Inr i, store_instance d i c2)))
                | None \<Rightarrow>
                    (case ctor d of
                       Some k \<Rightarrow>
                         (case resolveDependencies n reflect (dependency_tokens reflect d) [] c of
                            None \<Rightarrow> None
                          | Some (Inl error, c1) \<Rightarrow> Some (Inl error, c1)
                          | Some (Inr deps, c1) \<Rightarrow>
                              (case call_constructor reflect (token d) k deps c1 of
                                 (Inl error, c2) \<Rightarrow> Some (Inl error, c2)
                               | (Inr i, c2) \<Rightarrow> Some (Inr i, store_instance d i c2)))
                     | None \<Rightarrow> Some (Inl (nothing_provided (token d)), c)))))"
| "resolveDependencies 0 reflect toks acc c = None"
| "resolveDependencies (Suc n) reflect [] acc c = Some (Inr acc, c)"
| "resolveDependencies (Suc n) reflect (dep # rest) acc c =
     (case resolve n reflect dep c of
        None \<Rightarrow> None
      | Some (Inl error, c1) \<Rightarrow> Some (Inl error, c1)
      | Some (Inr i, c1) \<Rightarrow> resolveDependencies n reflect rest (acc @ [i]) c1)"

text \<open>Tearing the container down (the instances' own \<open>dispose\<close> methods are caller code).\<close>

definition dispose :: "DIContainer \<Rightarrow> DIContainer" where
  "dispose c =
     c\<lparr>services := Map.empty, singletons := Map.empty, scopes := Map.empty,
       scope_store := map (\<lambda>s. s\<lparr>scope_instances := Map.empty\<rparr>) (scope_store c)\<rparr>"


text \<open>An \<open>execute\<close> call that is admitted and whose inner function throws.\<close>

definition invoked_and_threw ::
  "CircuitBreaker \<Rightarrow> ('a, 'z) async \<Rightarrow> 'z env_scheme \<Rightarrow> bool" where
  "invoked_and_threw cb fn w = (admit (now w) cb \<noteq> None \<and> isl (fst (fn w)))"

subsection \<open>Sample inputs\<close>

definition boom :: "(unit, unit) async" where
  "boom w = (Inl (JsError ''boom''), delay 5 w)"

definition fine :: "(unit, unit) async" where
  "fine w = (Inr (), delay 5 w)"

definition w0 :: env where
  "w0 = \<lparr>now = 1000, requests = [], network = (\<lambda>k m u. (NoAnswer None, 0))\<rparr>"

definition cfg3 :: CircuitBreakerConfig where
  "cfg3 = \<lparr>failureThreshold = 3, resetTimeout = 120000, monitoringPeriod = 600000\<rparr>"

definition cbA :: CircuitBreaker where
  "cbA = (new_CircuitBreaker cfg3)\<lparr>failureCount := 1, totalRequests := 1,
     lastFailureTime := Some 1005, monitoringWindow := [(False, 1005)]\<rparr>"

definition cbB :: CircuitBreaker where
  "cbB = cbA\<lparr>failureCount := 2, totalRequests := 2,
     lastFailureTime := Some 1010, monitoringWindow := [(False, 1005), (False, 1010)]\<rparr>"

definition cbC :: CircuitBreaker where
  "cbC = cbB\<lparr>state := Open, failureCount := 3, totalRequests := 3,
     lastFailureTime := Some 1015, nextRetryTime := Some 121015,
     monitoringWindow := [(False, 1005), (False, 1010), (False, 1015)]\<rparr>"

definition factory0 :: CircuitBreakerFactory where
  "factory0 = \<lparr>instances = Map.empty, store = []\<rparr>"

definition client0 :: BaseApiClient where
  "client0 = new_BaseApiClient
     \<lparr>cfg_baseURL = ''https://api'', cfg_timeout = None, cfg_retries = None,
      cfg_retryDelay = None, cfg_headers = []\<rparr>"

definition not_found :: http_response where
  "not_found = \<lparr>status = 404, statusText = ''Not Found'', data = NoBody, headers = []\<rparr>"

definition w404 :: env where
  "w404 = \<lparr>now = 0, requests = [], network = (\<lambda>k m u. (Answered not_found, 10))\<rparr>"

text \<open>An environment that also records which handler was called with which event.\<close>

record traced = env +
  calls :: "(string \<times> string) list"

definition flaky :: "string \<Rightarrow> DomainEvent \<Rightarrow> traced \<Rightarrow> thrown option \<times> traced" where
  "flaky name ev w =
     (if name \<in> fst ` set (calls w) then None else Some (JsError ''handler failed''),
      w\<lparr>calls := calls w @ [(name, event_id ev)]\<rparr>)"

definition steady :: "string \<Rightarrow> DomainEvent \<Rightarrow> traced \<Rightarrow> thrown option \<times> traced" where
  "steady name ev w = (None, w\<lparr>calls := calls w @ [(name, event_id ev)]\<rparr>)"

definition t0 :: traced where
  "t0 = \<lparr>now = 0, requests = [], network = (\<lambda>k m u. (NoAnswer None, 0)), calls = []\<rparr>"

definition evA :: DomainEvent where
  "evA = \<lparr>event_id = ''A'', event_type = ''a'', occurredAt = 0, aggregateId = ''x'',
           version = 1, event_data = []\<rparr>"

definition evB :: DomainEvent where
  "evB = \<lparr>event_id = ''B'', event_type = ''b'', occurredAt = 0, aggregateId = ''x'',
           version = 1, event_data = []\<rparr>"

definition no_options :: "'z PartialEventBusOptions" where
  "no_options = \<lparr>opt_maxRetries = None, opt_retryDelay = None, opt_enableLogging = None,
                  opt_errorHandler = None\<rparr>"

definition bus0 :: "(unit traced_ext) EventBus" where
  "bus0 = snd (subscribe ''s2'' ''b'' (steady ''hB'')
            (snd (subscribe ''s1'' ''a'' (flaky ''hA'') (new_EventBus no_options))))"

text \<open>The environment at a later time (time passing between two calls).\<close>

definition at_time :: "time \<Rightarrow> 'z env_scheme \<Rightarrow> 'z env_scheme" where
  "at_time t w = w\<lparr>now := t\<rparr>"

text \<open>
  A metal-price client as its constructor builds it, with its breaker, and a server
  that answers every request with status 200 and a gold price, after 10 ms.
\<close>

definition metal_client0 :: MetalPriceApiClient where
  "metal_client0 = fst (new_MetalPriceApiClient factory0 None)"

definition breaker0 :: CircuitBreaker where
  "breaker0 = new_CircuitBreaker
     \<lparr>failureThreshold = 3, resetTimeout = 120000, monitoringPeriod = 600000\<rparr>"

definition gold_body :: payload where
  "gold_body = MetalBody \<lparr>mp_metal = ''Gold'', price_usd = 2000, mp_currency = ''USD'',
     mp_timestamp = ''2024-01-01T00:00:00Z'', mp_unit = Oz\<rparr>"

definition ok_gold :: http_response where
  "ok_gold = \<lparr>status = 200, statusText = ''OK'', data = gold_body, headers = []\<rparr>"

definition healthy :: "nat \<Rightarrow> http_method \<Rightarrow> string \<Rightarrow> reply \<times> time" where
  "healthy k m u = (Answered ok_gold, 10)"

definition mw0 :: "MetalPriceApiClient world" where
  "mw0 = \<lparr>now = 1000, requests = [], network = healthy, self = metal_client0\<rparr>"

definition gold_url :: "http_method \<times> string" where
  "gold_url = (GET, ''https://api.metals.live/v1/spot/gold'')"

text \<open>
  The states the run below goes through: the time, the number of requests issued so
  far, and the client's \<open>lastRequestTime\<close>; the cache is empty in all of them.
\<close>

definition mw_state :: "time \<Rightarrow> nat \<Rightarrow> time \<Rightarrow> MetalPriceApiClient world" where
  "mw_state t k l = mw0\<lparr>now := t, requests := replicate k gold_url,
     self := metal_client0\<lparr>lastRequestTime := l\<rparr>\<rparr>"

definition breaker1 :: CircuitBreaker where
  "breaker1 = breaker0\<lparr>failureCount := 1, totalRequests := 1, lastFailureTime := Some 7040,
     monitoringWindow := [(False, 7040)]\<rparr>"

definition breaker2 :: CircuitBreaker where
  "breaker2 = breaker1\<lparr>failureCount := 2, totalRequests := 2, lastFailureTime := Some 66040,
     monitoringWindow := [(False, 7040), (False, 66040)]\<rparr>"

definition breaker3 :: CircuitBreaker where
  "breaker3 = breaker2\<lparr>state := Open, failureCount := 3, totalRequests := 3,
     lastFailureTime := Some 126040, nextRetryTime := Some 246040,
     monitoringWindow := [(False, 7040), (False, 66040), (False, 126040)]\<rparr>"

text \<open>
  A sequence of container calls between two \<open>resolve\<close> calls of interest; \<open>None\<close> if
  one of its \<open>resolve\<close> calls does not return within its bound.
\<close>

datatype container_op = Resolve nat token | Register token PartialServiceDescriptor | CreateScope string

fun run_ops :: "(string \<Rightarrow> ClassInfo) \<Rightarrow> container_op list \<Rightarrow> DIContainer \<Rightarrow> DIContainer option" where
  "run_ops reflect [] c = Some c"
| "run_ops reflect (Resolve n tok # ops) c =
     (case resolve n reflect tok c of
        None \<Rightarrow> None
      | Some (r, c') \<Rightarrow> run_ops reflect ops c')"
| "run_ops reflect (Register tok p # ops) c = run_ops reflect ops (register tok p c)"
| "run_ops reflect (CreateScope scopeId # ops) c = run_ops reflect ops (snd (createScope scopeId c))"

text \<open>
  Tokens on which resolution keeps going round: each is registered with no stored
  instance, is built by a factory or a constructor, has no cached instance, and the
  first token its resolution asks for is again one of them.
\<close>

definition on_cycle :: "(string \<Rightarrow> ClassInfo) \<Rightarrow> DIContainer \<Rightarrow> token list \<Rightarrow> bool" where
  "on_cycle reflect c toks =
     (\<forall>t \<in> set toks.
        case services c t of
          None \<Rightarrow> False
        | Some d \<Rightarrow>
            inst d = None \<and> (factory d \<noteq> None \<or> ctor d \<noteq> None) \<and>
            cached_instance c d = None \<and>
            (case dependency_tokens reflect d of [] \<Rightarrow> False | t' # rest \<Rightarrow> t' \<in> set toks))"

text \<open>What a run of the container keeps: cached singletons, registrations, the objects built.\<close>

definition extends :: "DIContainer \<Rightarrow> DIContainer \<Rightarrow> bool" where
  "extends c c' =
     ((\<forall>k i. singletons c k = Some i \<longrightarrow> singletons c' k = Some i) \<and>
      (\<forall>k d. services c k = Some d \<longrightarrow> services c' k = Some d) \<and>
      allocated c \<le> allocated c')"


definition keeps :: "DIContainer \<Rightarrow> DIContainer \<Rightarrow> bool" where
  "keeps c c' =
     ((\<forall>k i. singletons c k = Some i \<longrightarrow> singletons c' k = Some i) \<and>
      allocated c \<le> allocated c')"


text \<open>Containers for the examples: no class carries metadata and no constructor throws.\<close>

definition reflect0 :: "string \<Rightarrow> ClassInfo" where
  "reflect0 cls = \<lparr>injectable = None, paramtypes = None, injectTokens = None,
                   constructor_throws = (\<lambda>deps. None)\<rparr>"

definition tokA :: token where "tokA = TString ''A''"
definition tokB :: token where "tokB = TString ''B''"

definition cyclic_container :: DIContainer where
  "cyclic_container =
     register tokB
       \<lparr>p_token = None, p_factory = None, p_constructor = Present (ClassCtor ''B''),
        p_instance = None, p_lifecycle = Some Singleton, p_dependencies = Some [tokA]\<rparr>
       (register tokA
          \<lparr>p_token = None, p_factory = None, p_constructor = Present (ClassCtor ''A''),
           p_instance = None, p_lifecycle = Some Transient, p_dependencies = Some [tokB]\<rparr>
          new_DIContainer)"

definition bus_token :: token where "bus_token = TString ''EventBus''"
definition useCase_token :: token where "useCase_token = TString ''UseCase''"

definition new_object :: factory where "new_object deps = Inr Fresh"

definition di0 :: DIContainer where
  "di0 = registerTransient useCase_token None (Some (ClassCtor ''UseCase''))
           (registerSingleton bus_token (Some new_object) None new_DIContainer)"

definition di1 :: DIContainer where
  "di1 = di0\<lparr>singletons := [bus_token \<mapsto> Built 0], allocated := 1,
              constructions := [(bus_token, Built 0)]\<rparr>"

definition di2 :: DIContainer where
  "di2 = di1\<lparr>allocated := 2, constructions := [(bus_token, Built 0), (useCase_token, Built 1)]\<rparr>"

definition di3 :: DIContainer where
  "di3 = di0\<lparr>allocated := 1, constructions := [(useCase_token, Built 0)]\<rparr>"

definition di4 :: DIContainer where
  "di4 = di0\<lparr>allocated := 2, constructions := [(useCase_token, Built 0), (useCase_token, Built 1)]\<rparr>"

definition settings_token :: token where "settings_token = TString ''Settings''"

definition shared_container :: DIContainer where
  "shared_container =
     register settings_token
       \<lparr>p_token = None, p_factory = None, p_constructor = Absent,
        p_instance = Some (Given ''settings''), p_lifecycle = Some Transient,
        p_dependencies = None\<rparr> new_DIContainer"

section \<open>Verified properties\<close>

subsection \<open>CircuitBreaker\<close>

lemmas cb_defs = execute_def admit_def new_CircuitBreaker_def onFailure_def onSuccess_def
  shouldOpenCircuit_def getFailureRate_def addToMonitoringWindow_def cleanupOldEntries_def
  shouldAttemptReset_def Let_def

lemma onFailure_opens:
  "failureThreshold (config cb) \<le> int (failureCount cb) + 1 \<Longrightarrow>
   state (onFailure t cb) = Open \<and>
   nextRetryTime (onFailure t cb) = Some (t + resetTimeout (config cb))"
  by (simp add: onFailure_def shouldOpenCircuit_def addToMonitoringWindow_def
      cleanupOldEntries_def Let_def)

lemma onFailure_failureCount: "failureCount (onFailure t cb) = failureCount cb + 1"
  by (simp add: onFailure_def shouldOpenCircuit_def getFailureRate_def
      addToMonitoringWindow_def cleanupOldEntries_def Let_def split: prod.splits)

lemma onFailure_config: "config (onFailure t cb) = config cb"
  by (simp add: onFailure_def shouldOpenCircuit_def getFailureRate_def
      addToMonitoringWindow_def cleanupOldEntries_def Let_def split: prod.splits)

lemma admit_keeps:
  "admit t cb = Some cb1 \<Longrightarrow> failureCount cb1 = failureCount cb \<and> config cb1 = config cb"
  by (auto simp: admit_def split: if_splits)

lemma execute_threw:
  assumes "invoked_and_threw cb fn w"
  shows "\<exists>cb1 e. admit (now w) cb = Some cb1 \<and> fst (fn w) = Inl e \<and>
           execute cb fn w = (Inl e, onFailure (now (snd (fn w))) cb1, snd (fn w))"
  using assms
  by (cases "fn w"; cases "fst (fn w)") (auto simp: invoked_and_threw_def execute_def)

lemma execute_rejects:
  "state cb = Open \<Longrightarrow> nextRetryTime cb = Some r \<Longrightarrow> now w < r \<Longrightarrow>
   execute cb g w = (Inl circuit_open_error, cb, w)"
  by (simp add: execute_def admit_def shouldAttemptReset_def)

lemma run_boom_1:
  "execute (new_CircuitBreaker cfg3) boom w0 = (Inl (JsError ''boom''), cbA, delay 5 w0)"
  by (simp add: cb_defs cfg3_def boom_def w0_def delay_def cbA_def)

lemma run_boom_2: "execute cbA boom (delay 5 w0) = (Inl (JsError ''boom''), cbB, delay 10 w0)"
  by (simp add: cb_defs cfg3_def boom_def w0_def delay_def cbA_def cbB_def)

lemma run_boom_3: "execute cbB boom (delay 10 w0) = (Inl (JsError ''boom''), cbC, delay 15 w0)"
  by (simp add: cb_defs cfg3_def boom_def w0_def delay_def cbA_def cbB_def cbC_def)

text \<open>
  C4. Take a breaker with \<open>failureThreshold = 3\<close> in any state, and three consecutive
  \<open>execute\<close> calls, each admitted and each with an inner function that throws (time may
  pass between the calls). After the third, \<open>getStats().state\<close> is open and
  \<open>nextRetryTime\<close> is the time of the third failure plus \<open>resetTimeout\<close>. Any
  \<open>execute\<close> call made before that time returns the circuit-open error, leaves the
  environment as it was (the inner function \<open>g\<close> is not run) and leaves the breaker,
  hence \<open>failureCount\<close>, \<open>successCount\<close> and \<open>totalRequests\<close>, unchanged; so the
  same holds for every further call before that time.
\<close>

theorem breaker_opens_after_three_failures:
  fixes cb0 :: CircuitBreaker and f1 f2 f3 g :: "('a, 'z) async"
  assumes thr: "failureThreshold (config cb0) = 3"
    and c1: "invoked_and_threw cb0 f1 w1" "execute cb0 f1 w1 = (r1, cb1, w1')"
    and c2: "invoked_and_threw cb1 f2 w2" "execute cb1 f2 w2 = (r2, cb2, w2')"
    and c3: "invoked_and_threw cb2 f3 w3" "execute cb2 f3 w3 = (r3, cb3, w3')"
  shows "stats_state (getStats cb3) = Open \<and>
         stats_nextRetryTime (getStats cb3) = Some (now w3' + resetTimeout (config cb0)) \<and>
         (now w < now w3' + resetTimeout (config cb0) \<longrightarrow>
            execute cb3 g w = (Inl circuit_open_error, cb3, w))"
proof -
  from execute_threw[OF c1(1)] c1(2) obtain a1 where
    a1: "admit (now w1) cb0 = Some a1" "cb1 = onFailure (now w1') a1" by auto
  from execute_threw[OF c2(1)] c2(2) obtain a2 where
    a2: "admit (now w2) cb1 = Some a2" "cb2 = onFailure (now w2') a2" by auto
  from execute_threw[OF c3(1)] c3(2) obtain a3 where
    a3: "admit (now w3) cb2 = Some a3" "cb3 = onFailure (now w3') a3" by auto
  have k1: "failureCount cb1 = failureCount cb0 + 1" "config cb1 = config cb0"
    using a1 admit_keeps[OF a1(1)] by (simp_all add: onFailure_failureCount onFailure_config)
  have k2: "failureCount cb2 = failureCount cb0 + 2" "config cb2 = config cb0"
    using a2 admit_keeps[OF a2(1)] k1 by (simp_all add: onFailure_failureCount onFailure_config)
  have k3: "failureCount a3 = failureCount cb0 + 2" "config a3 = config cb0"
    using admit_keeps[OF a3(1)] k2 by simp_all
  have "failureThreshold (config a3) \<le> int (failureCount a3) + 1"
    using k3 thr by simp
  from onFailure_opens[OF this, of "now w3'"] a3(2) k3
  have op: "state cb3 = Open" "nextRetryTime cb3 = Some (now w3' + resetTimeout (config cb0))"
    by simp_all
  show ?thesis
    using op execute_rejects[OF op(1) op(2), of w g] by (simp add: getStats_def)
qed

theorem breaker_opens_after_three_failures_witness:
  "failureThreshold (config (new_CircuitBreaker cfg3)) = 3 \<and>
   invoked_and_threw (new_CircuitBreaker cfg3) boom w0 \<and>
   invoked_and_threw cbA boom (delay 5 w0) \<and>
   invoked_and_threw cbB boom (delay 10 w0) \<and>
   stats_state (getStats cbC) = Open \<and>
   stats_nextRetryTime (getStats cbC) = Some 121015 \<and>
   now (delay 20 w0) < 121015 \<and>
   execute cbC fine (delay 20 w0) = (Inl circuit_open_error, cbC, delay 20 w0)"
proof -
  have t: "failureThreshold (config (new_CircuitBreaker cfg3)) = 3"
    by (simp add: new_CircuitBreaker_def cfg3_def)
  have i1: "invoked_and_threw (new_CircuitBreaker cfg3) boom w0"
    by (simp add: invoked_and_threw_def cb_defs boom_def)
  have i2: "invoked_and_threw cbA boom (delay 5 w0)"
    by (simp add: invoked_and_threw_def cb_defs boom_def cbA_def)
  have i3: "invoked_and_threw cbB boom (delay 10 w0)"
    by (simp add: invoked_and_threw_def cb_defs boom_def cbA_def cbB_def)
  have n: "now (delay 15 w0) + resetTimeout (config (new_CircuitBreaker cfg3)) = 121015"
    by (simp add: delay_def w0_def new_CircuitBreaker_def cfg3_def)
  have l: "now (delay 20 w0) < 121015" by (simp add: delay_def w0_def)
  from breaker_opens_after_three_failures
         [OF t i1 run_boom_1 i2 run_boom_2 i3 run_boom_3, of "delay 20 w0" fine]
  show ?thesis using t i1 i2 i3 n l by simp
qed

text \<open>
  C5. A breaker that is open with its \<open>nextRetryTime\<close> reached (\<open>now \<ge> nextRetryTime\<close>)
  admits the next \<open>execute\<close> call in the half-open state; if the inner function of that
  call succeeds, the call returns its value, the breaker is closed and \<open>failureCount\<close>
  is 0.
\<close>

theorem breaker_self_heals:
  fixes fn :: "('a, 'z) async"
  assumes "state cb = Open" and "nextRetryTime cb = Some r" and "r \<le> now w"
    and "fn w = (Inr v, w')"
  shows "(\<exists>cb1. admit (now w) cb = Some cb1 \<and> state cb1 = HalfOpen) \<and>
         (\<exists>cb'. execute cb fn w = (Inr v, cb', w') \<and>
                 stats_state (getStats cb') = Closed \<and> stats_failureCount (getStats cb') = 0)"
  using assms by (simp add: cb_defs getStats_def)

theorem breaker_self_heals_witness:
  "state cbC = Open \<and> nextRetryTime cbC = Some 121015 \<and> 121015 \<le> now (delay 200000 w0) \<and>
   fine (delay 200000 w0) = (Inr (), delay 5 (delay 200000 w0)) \<and>
   (\<exists>cb1. admit (now (delay 200000 w0)) cbC = Some cb1 \<and> state cb1 = HalfOpen) \<and>
   (\<exists>cb'. execute cbC fine (delay 200000 w0) = (Inr (), cb', delay 5 (delay 200000 w0)) \<and>
           stats_state (getStats cb') = Closed \<and> stats_failureCount (getStats cb') = 0)"
proof -
  have a: "state cbC = Open" "nextRetryTime cbC = Some 121015" by (simp_all add: cbC_def)
  have b: "121015 \<le> now (delay 200000 w0)" by (simp add: delay_def w0_def)
  have c: "fine (delay 200000 w0) = (Inr (), delay 5 (delay 200000 w0))" by (simp add: fine_def)
  from breaker_self_heals
         [of cbC 121015 "delay 200000 w0" fine "()" "delay 5 (delay 200000 w0)"]
  show ?thesis using a b c by simp
qed

subsection \<open>CircuitBreakerFactory\<close>

text \<open>
  C8. \<open>getInstance(name, c1)\<close> followed by \<open>getInstance(name, c2)\<close> returns the same
  breaker reference both times, and the second call changes nothing in the factory or in
  any breaker. If the name was not in the factory before the first call, the breaker is
  the one constructed by that call, with configuration \<open>c1\<close>, or with
  \<open>failureThreshold = 5\<close>, \<open>resetTimeout = 60000\<close>, \<open>monitoringPeriod = 300000\<close> when
  no configuration was passed; \<open>c2\<close> plays no role.
\<close>

theorem factory_reuses_instance:
  "(let (r1, f1) = getInstance name c1 f; (r2, f2) = getInstance name c2 f1
    in r2 = r1 \<and> f2 = f1 \<and> instances f1 name = Some r1 \<and>
       (instances f name = None \<longrightarrow>
          r1 < length (store f1) \<and> store f = take r1 (store f1) \<and>
          config (store f1 ! r1) =
            (case c1 of
               None \<Rightarrow> \<lparr>failureThreshold = 5, resetTimeout = 60000, monitoringPeriod = 300000\<rparr>
             | Some c \<Rightarrow> c)))"
  by (auto simp: getInstance_def Let_def new_CircuitBreaker_def default_breaker_config_def
      nth_append split: option.splits)

theorem factory_reuses_instance_witness:
  "(let (r1, f1) = getInstance ''metal-prices'' (Some cfg3) factory0;
        (r2, f2) = getInstance ''metal-prices'' None f1
    in r2 = r1 \<and> f2 = f1 \<and> instances f1 ''metal-prices'' = Some r1 \<and>
       instances factory0 ''metal-prices'' = None \<and>
       r1 < length (store f1) \<and> config (store f1 ! r1) = cfg3)"
  using factory_reuses_instance [of "''metal-prices''" "Some cfg3" factory0 None]
  by (simp add: factory0_def split: prod.splits)

subsection \<open>BaseApiClient\<close>

text \<open>
  The response interceptor has already replaced the library's error by the normalised
  \<open>ApiError\<close> when \<open>executeWithRetry\<close> catches it, and that object has no
  \<open>response\<close> property: the default retry condition holds of every normalised error.
\<close>

lemma retryCondition_of_normalised: "default_retryCondition (transformError e)"
  by (simp add: default_retryCondition_def transformError_def split: option.splits)

text \<open>
  C2 (the code departs from it). A client with the default retry configuration sends
  \<open>GET /gold\<close> to a server that answers 404 every time. The request is issued four
  times, with waits of 1000, 2000 and 3000 ms between the attempts (each answer takes
  10 ms), and the error that surfaces is the second normalisation of the normalised
  error: code \<open>UNKNOWN_ERROR\<close> and no status.
\<close>

theorem client_error_404_is_retried:
  "get client0 ''/gold'' w404 =
     (Inl (ApiError ''Not Found'' None (Some ''UNKNOWN_ERROR'')
             (DetailsError (ApiError ''Not Found'' (Some 404) None (DetailsData NoBody)))),
      w404\<lparr>now := 6040, requests := replicate 4 (GET, ''https://api/gold'')\<rparr>)"
  by (simp add: get_def executeWithRetry_def client0_def new_BaseApiClient_def number_or_def
      client_request_def axios_send_def w404_def not_found_def delay_def transformError_def
      transformResponse_def or_else_def default_retryCondition_def numeral_eq_Suc)

subsection \<open>EventBus\<close>

text \<open>
  \<open>publishSync\<close> awaits \<open>Promise.allSettled\<close>, so it never rejects, whatever the
  handlers do; the \<open>catch\<close> of \<open>processQueue\<close> is never entered.
\<close>

lemma publishSync_never_rejects: "\<exists>w'. publishSync ev bus w = (Inr (), w')"
  by (auto simp: publishSync_def Let_def split: option.splits prod.splits)

text \<open>
  C1 (the code departs from it). Handler \<open>hA\<close> is the only subscriber of type \<open>a\<close> and
  throws on its first call only; \<open>hB\<close> subscribes to type \<open>b\<close>. Publishing \<open>A\<close> (type
  \<open>a\<close>) and then \<open>B\<close> (type \<open>b\<close>) with the default options calls \<open>hA\<close> once with
  \<open>A\<close>, then \<open>hB\<close> with \<open>B\<close>: \<open>A\<close> is not put back on the queue, no retry delay
  passes, and \<open>A\<close> is never delivered successfully.
\<close>

theorem failed_event_is_not_retried:
  "(let (bus1, w1) = publish evA bus0 t0; (bus2, w2) = publish evB bus1 w1
    in calls w2 = [(''hA'', ''A''), (''hB'', ''B'')] \<and> eventQueue bus1 = [] \<and>
       eventQueue bus2 = [] \<and> now w2 = now t0)"
  by (simp add: publish_def processQueue_def bus0_def subscribe_def new_EventBus_def
      no_options_def publishSync_def executeHandler_def flaky_def steady_def t0_def evA_def
      evB_def Let_def)

subsection \<open>Price clients\<close>

lemma delay_self [simp]: "self (delay ms w) = self w"
  by (simp add: delay_def)

lemma axios_send_self: "axios_send m url w = (r, w') \<Longrightarrow> self w' = self w"
  by (auto simp: axios_send_def Let_def split: prod.splits reply.splits if_splits)

lemma client_request_self: "client_request c m url w = (r, w') \<Longrightarrow> self w' = self w"
  by (auto simp: client_request_def split: prod.splits sum.splits dest: axios_send_self)

lemma transformError_no_status: "response_of x = None \<Longrightarrow> status_of (transformError x) = None"
  by (simp add: transformError_def)

lemma client_request_error:
  "client_request c m url w = (Inl e, w') \<Longrightarrow> response_of e = None"
  by (auto simp: client_request_def this_transformResponse_def transformError_def
      metal_transformResponse_of_response_def
      split: prod.splits sum.splits option.splits api_class.splits if_splits)

lemma client_request_metal:
  "runtime_class c = MetalPriceApiClient_class \<Longrightarrow> client_request c m url w = (r, w') \<Longrightarrow> isl r"
  by (auto simp: client_request_def this_transformResponse_def split: prod.splits sum.splits)

lemma retry_self:
  assumes op: "\<And>w r w'. op w = (r, w') \<Longrightarrow> self w' = self w"
  shows "executeWithRetry_from tr rc op a le w = (r, w') \<Longrightarrow> self w' = self w"
  using op
proof (induction tr rc op a le w arbitrary: r w' rule: executeWithRetry_from.induct)
  case (1 transform rc operation attempt lastError w)
  obtain x v where Pair: "operation w = (x, v)" by (cases "operation w")
  have s: "self v = self w" using "1.prems"(2)[OF Pair] .
  note step = "1.prems"(1)[unfolded
      executeWithRetry_from.simps[of transform rc operation attempt lastError w]]
  note IH = "1.IH"[OF _ refl Pair[symmetric] refl _ _ _ "1.prems"(2)]
  show ?case
    using step IH Pair s
    by (auto simp: Let_def simp del: executeWithRetry_from.simps
        split: sum.splits option.splits if_splits)
qed

lemma retry_error_status:
  assumes op: "\<And>w e w'. op w = (Inl e, w') \<Longrightarrow> response_of e = None"
    and tr: "\<And>x e. tr x = Inl e \<Longrightarrow> response_of e = None"
    and le: "\<And>e. le = Some e \<Longrightarrow> response_of e = None"
  shows "executeWithRetry_from tr rc op a le w = (Inl e, w') \<Longrightarrow> status_of e = None"
  using op tr le
proof (induction tr rc op a le w arbitrary: e w' rule: executeWithRetry_from.induct)
  case (1 transform rc operation attempt lastError w)
  obtain x v where Pair: "operation w = (x, v)" by (cases "operation w")
  note step = "1.prems"(1)[unfolded
      executeWithRetry_from.simps[of transform rc operation attempt lastError w]]
  note IH = "1.IH"[OF _ refl Pair[symmetric] refl _ _ _ "1.prems"(2) "1.prems"(3)]
  show ?case
    using step IH Pair "1.prems"(2,3,4)
    by (auto simp: Let_def transformError_no_status simp del: executeWithRetry_from.simps
        split: sum.splits option.splits if_splits)
qed

lemma retry_fails:
  assumes op: "\<And>w r w'. op w = (r, w') \<Longrightarrow> isl r"
  shows "executeWithRetry_from tr rc op a le w = (r, w') \<Longrightarrow> isl r"
  using op
proof (induction tr rc op a le w arbitrary: r w' rule: executeWithRetry_from.induct)
  case (1 transform rc operation attempt lastError w)
  obtain x v where Pair: "operation w = (x, v)" by (cases "operation w")
  have x: "isl x" using "1.prems"(2)[OF Pair] .
  note step = "1.prems"(1)[unfolded
      executeWithRetry_from.simps[of transform rc operation attempt lastError w]]
  note IH = "1.IH"[OF _ refl Pair[symmetric] refl _ _ _ "1.prems"(2)]
  show ?case
    using step IH Pair x
    by (auto simp: Let_def simp del: executeWithRetry_from.simps
        split: sum.splits option.splits if_splits)
qed

lemma get_self: "get c url w = (r, w') \<Longrightarrow> self w' = self w"
  unfolding get_def executeWithRetry_def
  by (erule retry_self[rotated]) (rule client_request_self)

lemma get_error_status: "get c url w = (Inl e, w') \<Longrightarrow> status_of e = None"
  unfolding get_def executeWithRetry_def
  by (erule retry_error_status[rotated 3])
     (auto dest: client_request_error
       simp: this_transformResponse_def metal_transformResponse_of_response_def
       split: api_class.splits)

lemma metal_get_fails:
  "runtime_class c = MetalPriceApiClient_class \<Longrightarrow> get c url w = (r, w') \<Longrightarrow> isl r"
  unfolding get_def executeWithRetry_def
  by (erule retry_fails[rotated]) (rule client_request_metal)

lemma fetchMetalPrice_self: "fetchMetalPrice m w = (r, w') \<Longrightarrow> self w' = self w"
  unfolding fetchMetalPrice_def Let_def
  by (auto split: prod.splits sum.splits if_splits dest!: get_self)

lemma metal_fetch_always_throws:
  assumes "runtime_class (self w) = MetalPriceApiClient_class"
  shows "isl (fst (fetchMetalPrice m w))"
proof -
  obtain r v where g: "get (self w) (''/'' @ m) w = (r, v)"
    by (cases "get (self w) (''/'' @ m) w")
  from metal_get_fails[OF assms g] obtain e where e: "r = Inl e" by (cases r) auto
  have "status_of e = None" using get_error_status g e by blast
  then show ?thesis using g e by (simp add: fetchMetalPrice_def)
qed

lemma enforceRateLimit_keeps [simp]:
  "requests (enforceRateLimit w) = requests w"
  "cache (self (enforceRateLimit w)) = cache (self w)"
  "cacheTimeout (self (enforceRateLimit w)) = cacheTimeout (self w)"
  "runtime_class (self (enforceRateLimit w)) = runtime_class (self w)"
  by (simp_all add: enforceRateLimit_def Let_def delay_def)

lemma fetch_and_cache_failure:
  "fetch_and_cache m w = (Inl e, w') \<Longrightarrow> self w' = self w"
  by (auto simp: fetch_and_cache_def split: prod.splits sum.splits option.splits
      dest: fetchMetalPrice_self)

lemma execute_failure_self:
  assumes "execute cb (fetch_and_cache m) w = (Inl e, cb', w')"
  shows "self w' = self w"
  using assms
  by (auto simp: execute_def split: option.splits prod.splits sum.splits
      dest: fetch_and_cache_failure)

lemma metal_execute_fails:
  assumes "runtime_class (self w) = MetalPriceApiClient_class"
  shows "isl (fst (execute cb (fetch_and_cache m) w))"
  using metal_fetch_always_throws[OF assms, of m]
  by (cases "fetchMetalPrice m w")
     (auto simp: execute_def fetch_and_cache_def split: option.splits sum.splits)

lemma getCachedPrice_expired_ok:
  "getCachedPrice m True w = map_option fst (cache (self w) m)"
  by (simp add: getCachedPrice_def Let_def split: option.splits)

lemma getCachedPrice_fresh:
  "getCachedPrice m False w = Some p \<Longrightarrow> map_option fst (cache (self w) m) = Some p"
  by (auto simp: getCachedPrice_def Let_def split: option.splits if_splits)

lemma metal_cache_never_written:
  assumes "runtime_class (self w) = MetalPriceApiClient_class"
  shows "cache (self (snd (snd (getCurrentPrice m cb w)))) = cache (self w)"
proof (cases "getCachedPrice (toLowerCase m) False w")
  case (Some p)
  then show ?thesis by (simp add: getCurrentPrice_def Let_def)
next
  case None
  obtain r cb' w' where ex:
    "execute cb (fetch_and_cache (toLowerCase m)) (enforceRateLimit w) = (r, cb', w')"
    by (cases "execute cb (fetch_and_cache (toLowerCase m)) (enforceRateLimit w)")
  have "isl r"
    using metal_execute_fails[of "enforceRateLimit w" cb "toLowerCase m"] assms ex by simp
  then obtain e where "r = Inl e" by (cases r) auto
  then have "self w' = self (enforceRateLimit w)"
    using execute_failure_self ex by blast
  then show ?thesis
    using None ex \<open>r = Inl e\<close> by (simp add: getCurrentPrice_def Let_def)
qed

lemma lower_gold: "toLowerCase ''gold'' = ''gold''"
  by (simp add: toLowerCase_def lower_char_def)

lemmas metal_defs = getCurrentPrice_def getCachedPrice_def enforceRateLimit_def
  fetch_and_cache_def fetchMetalPrice_def cachePrice_def metal_transformResponse_def
  lower_gold get_def executeWithRetry_def client_request_def this_transformResponse_def
  metal_transformResponse_of_response_def
  axios_send_def transformError_def transformResponse_def or_else_def
  default_retryCondition_def delay_def number_or_def new_MetalPriceApiClient_def
  default_metal_config_def new_BaseApiClient_def getInstance_def BaseApiClient.extend_def

lemmas sample_defs = mw0_def metal_client0_def breaker0_def healthy_def ok_gold_def
  gold_body_def gold_url_def mw_state_def factory0_def at_time_def

text \<open>
  A run of the client against the healthy server: calls at times 1000, 60000 and
  120000 each issue four requests (at 1000, 2010, 4020 and 7030 for the first) and
  fail; the third failure opens the breaker until 246040, and the call at 130000 is
  rejected by it.
\<close>

lemma run_gold_1:
  "getCurrentPrice ''gold'' breaker0 mw0 = (Inr None, breaker1, mw_state 7040 4 1000)"
  by (simp add: metal_defs cb_defs sample_defs breaker1_def numeral_eq_Suc)

lemma run_gold_2:
  "getCurrentPrice ''gold'' breaker1 (at_time 60000 (mw_state 7040 4 1000)) =
     (Inr None, breaker2, mw_state 66040 8 60000)"
  by (simp add: metal_defs cb_defs sample_defs breaker1_def breaker2_def numeral_eq_Suc)

lemma run_gold_3:
  "getCurrentPrice ''gold'' breaker2 (at_time 120000 (mw_state 66040 8 60000)) =
     (Inr None, breaker3, mw_state 126040 12 120000)"
  by (simp add: metal_defs cb_defs sample_defs breaker1_def breaker2_def breaker3_def
      numeral_eq_Suc)

lemma run_gold_4:
  "getCurrentPrice ''gold'' breaker3 (at_time 130000 (mw_state 126040 12 120000)) =
     (Inr None, breaker3, mw_state 130000 12 130000)"
  by (simp add: metal_defs cb_defs sample_defs breaker1_def breaker2_def breaker3_def
      numeral_eq_Suc)

text \<open>
  The fetch of a MetalPriceApiClient never returns: each 2xx answer makes the response
  interceptor call the client's own \<open>transformResponse\<close> on the response object, which
  throws, and every other answer is an error already (\<open>metal_fetch_always_throws\<close>).
  So \<open>getCurrentPrice\<close> never writes the cache (\<open>metal_cache_never_written\<close>).

  C6 (the code departs from it). A client as its constructor builds it calls
  \<open>getCurrentPrice('gold')\<close> at time 1000 against a server that answers every request
  with status 200 and a well-formed gold price, and again at time 60000, within the
  hour. The first call issues four HTTP requests and returns null; the second issues
  four more and returns null again; the cache holds nothing for gold.
\<close>

theorem healthy_server_price_is_never_cached:
  "getCurrentPrice ''gold'' breaker0 mw0 = (Inr None, breaker1, mw_state 7040 4 1000) \<and>
   getCurrentPrice ''gold'' breaker1 (at_time 60000 (mw_state 7040 4 1000)) =
     (Inr None, breaker2, mw_state 66040 8 60000) \<and>
   requests (mw_state 7040 4 1000) = replicate 4 gold_url \<and>
   requests (mw_state 66040 8 60000) = replicate 8 gold_url \<and>
   cache (self (mw_state 66040 8 60000)) ''gold'' = None"
  using run_gold_1 run_gold_2
  by (simp add: sample_defs metal_defs)

text \<open>
  C7. \<open>getCurrentPrice\<close> never throws. If the fetch run through the circuit breaker
  fails, by an error of the fetch or by the breaker rejecting the call, the result is
  the data of the cache entry of the (lower-cased) metal, whatever its age, and null
  (\<open>None\<close>) when there is no entry.
\<close>

theorem stale_price_on_failure:
  "(\<exists>v. fst (getCurrentPrice m cb w) = Inr v) \<and>
   (isl (fst (execute cb (fetch_and_cache (toLowerCase m)) (enforceRateLimit w))) \<longrightarrow>
      fst (getCurrentPrice m cb w) = Inr (map_option fst (cache (self w) (toLowerCase m))))"
proof -
  obtain r cb' w' where ex:
    "execute cb (fetch_and_cache (toLowerCase m)) (enforceRateLimit w) = (r, cb', w')"
    by (cases "execute cb (fetch_and_cache (toLowerCase m)) (enforceRateLimit w)")
  show ?thesis
  proof (cases "getCachedPrice (toLowerCase m) False w")
    case (Some p)
    then show ?thesis
      using getCachedPrice_fresh[OF Some] by (auto simp: getCurrentPrice_def Let_def)
  next
    case None
    show ?thesis
    proof (cases r)
      case (Inr v)
      then show ?thesis using None ex by (simp add: getCurrentPrice_def Let_def)
    next
      case (Inl e)
      have "self w' = self (enforceRateLimit w)"
        using execute_failure_self ex Inl by blast
      then have "cache (self w') = cache (self w)" by simp
      then show ?thesis
        using None ex Inl
        by (simp add: getCurrentPrice_def Let_def getCachedPrice_expired_ok)
    qed
  qed
qed


text \<open>
  The theorem at the states of the run above: the first call, whose fetch throws, and
  the call at 130000, which the open breaker rejects; the cache has no entry for gold
  and both calls return null.
\<close>

theorem stale_price_on_failure_witness:
  "isl (fst (execute breaker0 (fetch_and_cache (toLowerCase ''gold'')) (enforceRateLimit mw0))) \<and>
   cache (self mw0) (toLowerCase ''gold'') = None \<and>
   fst (getCurrentPrice ''gold'' breaker0 mw0) = Inr None \<and>
   state breaker3 = Open \<and>
   isl (fst (execute breaker3 (fetch_and_cache (toLowerCase ''gold''))
               (enforceRateLimit (at_time 130000 (mw_state 126040 12 120000))))) \<and>
   cache (self (at_time 130000 (mw_state 126040 12 120000))) (toLowerCase ''gold'') = None \<and>
   fst (getCurrentPrice ''gold'' breaker3 (at_time 130000 (mw_state 126040 12 120000))) = Inr None"
proof -
  have k: "runtime_class (self mw0) = MetalPriceApiClient_class"
    "runtime_class (self (at_time 130000 (mw_state 126040 12 120000))) = MetalPriceApiClient_class"
    by (simp_all add: sample_defs metal_defs)
  have f1: "isl (fst (execute breaker0 (fetch_and_cache (toLowerCase ''gold''))
                        (enforceRateLimit mw0)))"
    using metal_execute_fails[of "enforceRateLimit mw0"] k by simp
  have f2: "isl (fst (execute breaker3 (fetch_and_cache (toLowerCase ''gold''))
               (enforceRateLimit (at_time 130000 (mw_state 126040 12 120000)))))"
    using metal_execute_fails[of "enforceRateLimit (at_time 130000 (mw_state 126040 12 120000))"] k
    by simp
  have c: "cache (self mw0) (toLowerCase ''gold'') = None"
    "cache (self (at_time 130000 (mw_state 126040 12 120000))) (toLowerCase ''gold'') = None"
    by (simp_all add: sample_defs metal_defs)
  have s: "state breaker3 = Open" by (simp add: breaker3_def)
  show ?thesis
    using stale_price_on_failure[of "''gold''" breaker0 mw0]
      stale_price_on_failure[of "''gold''" breaker3 "at_time 130000 (mw_state 126040 12 120000)"]
      f1 f2 c s
    by simp
qed

text \<open>
  C10. Converting between a currency and itself returns the amount unchanged with a
  rate of 1 and provider \<open>same-currency\<close>; the breaker and the environment (cache,
  request log, clock) are exactly as before, for every state of the client, the breaker
  and the network.
\<close>

theorem same_currency_conversion:
  "convertCurrency amount c c cb w =
     (Inr (Some \<lparr>convertedAmount = amount,
                 conversion_rate = \<lparr>fromCurrency = c, toCurrency = c, rate = 1,
                    rate_lastUpdated = DateAt (now w), provider = ''same-currency''\<rparr>\<rparr>),
      cb, w)"
  by (simp add: convertCurrency_def)

subsection \<open>DIContainer\<close>

lemma extends_refl [simp]: "extends c c"
  by (simp add: extends_def)

lemma extends_trans: "extends a b \<Longrightarrow> extends b c \<Longrightarrow> extends a c"
  by (auto simp: extends_def)

lemma extends_register: "services c tok = None \<Longrightarrow> extends c (register tok p c)"
  by (auto simp: extends_def register_def Let_def)

lemma extends_fresh: "fresh_object tok c = (i, c') \<Longrightarrow> extends c c'"
  by (auto simp: extends_def fresh_object_def)

lemma extends_call_factory: "call_factory tok f deps c = (r, c') \<Longrightarrow> extends c c'"
  by (auto simp: extends_def call_factory_def fresh_object_def split: sum.splits made.splits)

lemma extends_call_constructor: "call_constructor reflect tok k deps c = (r, c') \<Longrightarrow> extends c c'"
  by (auto simp: extends_def call_constructor_def fresh_object_def
      split: ctor_ref.splits list.splits option.splits)

lemma cached_none_singleton:
  "cached_instance c d = None \<Longrightarrow> lifecycle d = Singleton \<Longrightarrow> singletons c (token d) = None"
  by (auto simp: cached_instance_def split: if_splits)

lemma extends_store:
  assumes "extends c c2" and "cached_instance c d = None"
  shows "extends c (store_instance d i c2)"
  using assms cached_none_singleton[of c d]
  by (cases "lifecycle d")
     (auto simp: extends_def store_instance_def split: option.splits)

lemma di_extends:
  shows "resolve n reflect tok c = Some (r, c') \<Longrightarrow> extends c c'"
  and "createInstance n reflect d c = Some (r, c') \<Longrightarrow> extends c c'"
  and "resolveDependencies n reflect toks acc c = Some (rs, c') \<Longrightarrow> extends c c'"
proof (induction n reflect tok c and n reflect d c and n reflect toks acc c
       arbitrary: r c' and r c' and rs c'
       rule: resolve_createInstance_resolveDependencies.induct)
  case (1 reflect tok c)
  then show ?case by simp
next
  case (2 n reflect tok c)
  show ?case
  proof (cases "services c tok")
    case (Some d)
    then show ?thesis using 2(2)[OF Some] 2(3) by simp
  next
    case None
    show ?thesis
    proof (cases tok)
      case (TClass cls)
      show ?thesis
      proof (cases "injectable (reflect cls)")
        case (Some lc)
        have "extends c (register tok
                 \<lparr>p_token = None, p_factory = None, p_constructor = Present (ClassCtor cls),
                  p_instance = None, p_lifecycle = Some lc, p_dependencies = None\<rparr> c)"
          using None by (rule extends_register)
        moreover have "extends (register tok
                 \<lparr>p_token = None, p_factory = None, p_constructor = Present (ClassCtor cls),
                  p_instance = None, p_lifecycle = Some lc, p_dependencies = None\<rparr> c) c'"
          using 2(1)[OF None TClass Some] 2(3) None TClass Some by simp
        ultimately show ?thesis by (rule extends_trans)
      next
        case None2: None
        then show ?thesis using 2(3) None TClass by simp
      qed
    qed (use 2(3) None in simp_all)
  qed
next
  case (3 reflect d c)
  then show ?case by simp
next
  case (4 n reflect d c)
  show ?case
  proof (cases "cached_instance c d")
    case (Some i)
    then show ?thesis using 4(3) by simp
  next
    case None
    note cn = None
    show ?thesis
    proof (cases "inst d")
      case (Some i)
      then show ?thesis using 4(3) cn extends_store[OF extends_refl cn] by auto
    next
      case None
      note inn = None
      show ?thesis
      proof (cases "factory d")
        case (Some f)
        show ?thesis
          using 4(3) 4(2)[OF cn inn Some] cn inn Some
          by (auto split: option.splits sum.splits prod.splits
              intro!: extends_store[OF _ cn]
              dest!: extends_call_factory intro: extends_trans)
      next
        case None
        note fn = None
        show ?thesis
        proof (cases "ctor d")
          case None
          then show ?thesis using 4(3) cn inn fn by simp
        next
          case (Some k)
          show ?thesis
            using 4(3) 4(1)[OF cn inn fn Some] cn inn fn Some
            by (auto split: option.splits sum.splits prod.splits
                intro!: extends_store[OF _ cn]
                dest!: extends_call_constructor intro: extends_trans)
        qed
      qed
    qed
  qed
next
  case (5 reflect toks acc c)
  then show ?case by simp
next
  case (6 n reflect acc c)
  then show ?case by simp
next
  case (7 n reflect dep rest acc c)
  then show ?case
    by (auto split: option.splits sum.splits prod.splits intro: extends_trans)
qed

lemma keeps_refl [simp]: "keeps c c" by (simp add: keeps_def)
lemma keeps_trans: "keeps a b \<Longrightarrow> keeps b c \<Longrightarrow> keeps a c" by (auto simp: keeps_def)
lemma extends_keeps: "extends c c' \<Longrightarrow> keeps c c'" by (auto simp: keeps_def extends_def)
lemma keeps_register: "keeps c (register tok p c)" by (simp add: keeps_def register_def Let_def)
lemma keeps_createScope: "keeps c (snd (createScope s c))" by (simp add: keeps_def createScope_def Let_def)

lemma run_ops_keeps: "run_ops reflect ops c = Some c' \<Longrightarrow> keeps c c'"
proof (induction reflect ops c rule: run_ops.induct)
  case (2 reflect n tok ops c)
  then show ?case
    by (auto split: option.splits prod.splits dest!: di_extends(1) extends_keeps intro: keeps_trans)
next
  case (3 reflect tok p ops c)
  then show ?case using keeps_trans[OF keeps_register] by auto
next
  case (4 reflect scopeId ops c)
  then show ?case using keeps_trans[OF keeps_createScope] by auto
qed simp

lemma cycle_all:
  assumes cyc: "on_cycle reflect c toks"
  shows "(\<forall>t \<in> set toks. resolve n reflect t c = None) \<and>
         (\<forall>t \<in> set toks. \<forall>d. services c t = Some d \<longrightarrow> createInstance n reflect d c = None) \<and>
         (\<forall>t \<in> set toks. \<forall>rest acc. resolveDependencies n reflect (t # rest) acc c = None)"
proof (induction n)
  case 0
  show ?case by simp
next
  case (Suc n)
  have info: "\<exists>d. services c t = Some d \<and> inst d = None \<and> (factory d \<noteq> None \<or> ctor d \<noteq> None) \<and>
            cached_instance c d = None \<and>
            (\<exists>t' rest. dependency_tokens reflect d = t' # rest \<and> t' \<in> set toks)"
    if "t \<in> set toks" for t
  proof -
    from cyc that have
      "case services c t of
          None \<Rightarrow> False
        | Some d \<Rightarrow>
            inst d = None \<and> (factory d \<noteq> None \<or> ctor d \<noteq> None) \<and>
            cached_instance c d = None \<and>
            (case dependency_tokens reflect d of [] \<Rightarrow> False | t' # rest \<Rightarrow> t' \<in> set toks)"
      unfolding on_cycle_def by blast
    then show ?thesis
      by (cases "services c t"; cases "dependency_tokens reflect (the (services c t))") auto
  qed
  have a: "resolve (Suc n) reflect t c = None" if "t \<in> set toks" for t
    using info[OF that] Suc that by auto
  have b: "createInstance (Suc n) reflect d c = None"
    if "t \<in> set toks" "services c t = Some d" for t d
    using info[OF that(1)] that Suc by (auto split: option.splits)
  have d: "resolveDependencies (Suc n) reflect (t # rest) acc c = None"
    if "t \<in> set toks" for t rest acc
    using Suc that by simp
  show ?case using a b d by blast
qed

lemma cycle_never_returns:
  "on_cycle reflect c toks \<Longrightarrow> t \<in> set toks \<Longrightarrow> resolve n reflect t c = None"
  using cycle_all by blast

lemma singleton_cached_after:
  "createInstance n reflect d c = Some (Inr i, c') \<Longrightarrow> lifecycle d = Singleton \<Longrightarrow>
   singletons c' (token d) = Some i"
  by (cases n)
     (auto simp: cached_instance_def store_instance_def
       split: option.splits sum.splits prod.splits if_splits)

lemma singleton_hit:
  "services c tok = Some d \<Longrightarrow> lifecycle d = Singleton \<Longrightarrow> singletons c (token d) = Some i \<Longrightarrow>
   resolve (Suc (Suc m)) reflect tok c = Some (Inr i, c)"
  by (simp add: cached_instance_def)

lemma transient_new:
  assumes "createInstance n reflect d c = Some (Inr i, c')" and "lifecycle d = Transient"
    and "inst d = None"
    and "case factory d of Some f \<Rightarrow> \<forall>deps x. f deps \<noteq> Inr (Existing x)
         | None \<Rightarrow> \<exists>cls. ctor d = Some (ClassCtor cls)"
  shows "\<exists>k. i = Built k \<and> allocated c \<le> k \<and> k < allocated c'"
proof (cases n)
  case 0
  then show ?thesis using assms by simp
next
  case (Suc m)
  have cn: "cached_instance c d = None" using assms(2) by (simp add: cached_instance_def)
  show ?thesis
  proof (cases "factory d")
    case (Some f)
    then obtain deps c1 where r: "resolveDependencies m reflect (dependency_tokens reflect d) [] c = Some (Inr deps, c1)"
      using assms Suc cn by (auto split: option.splits sum.splits prod.splits)
    have le: "allocated c \<le> allocated c1" using di_extends(3)[OF r] by (simp add: extends_def)
    have "f deps = Inr Fresh"
      using assms Suc cn Some r
      by (cases "f deps") (auto simp: call_factory_def split: made.splits)
    then show ?thesis
      using assms Suc cn Some r le
      by (auto simp: call_factory_def fresh_object_def store_instance_def)
  next
    case None
    then obtain cls where k: "ctor d = Some (ClassCtor cls)" using assms(4) by auto
    then obtain deps c1 where r: "resolveDependencies m reflect (dependency_tokens reflect d) [] c = Some (Inr deps, c1)"
      using assms Suc cn None by (auto split: option.splits sum.splits prod.splits)
    have le: "allocated c \<le> allocated c1" using di_extends(3)[OF r] by (simp add: extends_def)
    show ?thesis
      using assms Suc cn None k r le
      by (auto simp: call_constructor_def fresh_object_def store_instance_def split: option.splits)
  qed
qed

lemmas di_defs = register_def registerSingleton_def registerTransient_def new_DIContainer_def
  optional_def cached_instance_def scoped_instance_def store_instance_def fresh_object_def
  call_factory_def call_constructor_def dependency_tokens_def Let_def

lemmas cycle_samples = reflect0_def tokA_def tokB_def cyclic_container_def

lemmas di_samples = reflect0_def bus_token_def useCase_token_def new_object_def di0_def
  di1_def di2_def di3_def di4_def settings_token_def shared_container_def

lemma cyclic_on_cycle: "on_cycle reflect0 cyclic_container [tokA, tokB]"
  by (simp add: on_cycle_def di_defs cycle_samples)

text \<open>
  C3 as stated fails: \<open>A\<close> is registered with dependency \<open>B\<close> and \<open>B\<close> with
  dependency \<open>A\<close>, both built by their constructors. \<open>resolve(A)\<close> does not return
  within any depth of calls: it yields neither an instance nor an error.
\<close>

theorem cycle_is_not_detected:
  "map_option dependencies (services cyclic_container tokA) = Some (Some [tokB]) \<and>
   map_option dependencies (services cyclic_container tokB) = Some (Some [tokA]) \<and>
   (\<forall>n. resolve n reflect0 tokA cyclic_container = None)"
  using cycle_never_returns[OF cyclic_on_cycle, of tokA]
  by (simp add: di_defs cycle_samples)

text \<open>
  C3, amended. The container does not detect cycles. If every token of a list is
  registered with no stored and no cached instance, is built by a factory or a
  constructor, and has a token of the list as the first dependency that its resolution
  asks for, then \<open>resolve\<close> of a token of the list recurses without bound and never
  returns, neither an instance nor an error of the container.
\<close>

theorem resolve_on_cycle_never_returns:
  "on_cycle reflect c toks \<Longrightarrow> t \<in> set toks \<Longrightarrow> resolve n reflect t c = None"
  by (rule cycle_never_returns)


theorem resolve_on_cycle_never_returns_witness:
  "on_cycle reflect0 cyclic_container [tokA, tokB] \<and> tokA \<in> set [tokA, tokB] \<and>
   resolve 1000 reflect0 tokA cyclic_container = None"
  using resolve_on_cycle_never_returns[OF cyclic_on_cycle, of tokA 1000] cyclic_on_cycle
  by simp

lemma resolve_registered:
  "resolve n reflect tok c = Some x \<Longrightarrow> services c tok = Some d \<Longrightarrow>
   \<exists>n'. n = Suc n' \<and> createInstance n' reflect d c = Some x"
  by (cases n) auto

text \<open>
  C9 as stated fails for transient tokens: a token registered with lifecycle
  \<open>transient\<close> and a ready-made \<open>instance\<close> resolves to that same instance every
  time, and the container is unchanged by the call.
\<close>

theorem transient_instance_is_shared:
  "map_option lifecycle (services shared_container settings_token) = Some Transient \<and>
   resolve 2 reflect0 settings_token shared_container = Some (Inr (Given ''settings''), shared_container)"
  by (simp add: di_defs di_samples numeral_eq_Suc)

text \<open>
  C9, amended. Let a token be registered, let \<open>resolve\<close> of it return \<open>i\<close>, and let
  any calls of \<open>resolve\<close>, \<open>register\<close> and \<open>createScope\<close> follow that leave the
  token's descriptor in place. If the lifecycle is singleton, \<open>i\<close> is in the
  \<open>singletons\<close> map and every later \<open>resolve\<close> of the token returns \<open>i\<close> and leaves
  the container as it is, so nothing is constructed again. If the lifecycle is transient
  and the descriptor has no ready-made instance and is built by a class constructor, or
  by a factory that never hands out an existing object, every later \<open>resolve\<close> that
  returns gives an object built after all earlier ones, hence distinct from \<open>i\<close>.
\<close>

theorem instance_identity_by_lifecycle:
  assumes reg: "services c tok = Some d"
    and first: "resolve n reflect tok c = Some (Inr i, c1)"
    and between: "run_ops reflect ops c1 = Some c2"
    and still: "services c2 tok = Some d"
  shows "(lifecycle d = Singleton \<longrightarrow>
            singletons c1 (token d) = Some i \<and>
            resolve (Suc (Suc m)) reflect tok c2 = Some (Inr i, c2)) \<and>
         (lifecycle d = Transient \<and> inst d = None \<and>
          (case factory d of
             Some f \<Rightarrow> \<forall>deps x. f deps \<noteq> Inr (Existing x)
           | None \<Rightarrow> \<exists>cls. ctor d = Some (ClassCtor cls)) \<longrightarrow>
            (\<forall>j c3. resolve m reflect tok c2 = Some (Inr j, c3) \<longrightarrow>
               j \<noteq> i \<and> (\<exists>k. j = Built k \<and> allocated c2 \<le> k)))"
proof -
  from resolve_registered[OF first reg] obtain n' where
    n': "createInstance n' reflect d c = Some (Inr i, c1)" by blast
  have single: "singletons c1 (token d) = Some i \<and>
                resolve (Suc (Suc m)) reflect tok c2 = Some (Inr i, c2)"
    if s: "lifecycle d = Singleton"
  proof -
    have c1: "singletons c1 (token d) = Some i"
      using singleton_cached_after[OF n' s] .
    have "singletons c2 (token d) = Some i"
      using run_ops_keeps[OF between] c1 by (simp add: keeps_def)
    then show ?thesis
      using singleton_hit[OF still s] c1 by simp
  qed
  have transient: "j \<noteq> i \<and> (\<exists>k. j = Built k \<and> allocated c2 \<le> k)"
    if t1: "lifecycle d = Transient" and t2: "inst d = None"
      and t3: "case factory d of Some f \<Rightarrow> \<forall>deps x. f deps \<noteq> Inr (Existing x)
               | None \<Rightarrow> \<exists>cls. ctor d = Some (ClassCtor cls)"
      and second: "resolve m reflect tok c2 = Some (Inr j, c3)" for j c3
  proof -
    from resolve_registered[OF second still] obtain m' where
      m': "createInstance m' reflect d c2 = Some (Inr j, c3)" by blast
    from transient_new[OF n' t1 t2 t3] obtain k where k: "i = Built k" "k < allocated c1"
      by blast
    from transient_new[OF m' t1 t2 t3] obtain l where l: "j = Built l" "allocated c2 \<le> l"
      by blast
    have "allocated c1 \<le> allocated c2"
      using run_ops_keeps[OF between] by (simp add: keeps_def)
    then show ?thesis using k l by auto
  qed
  show ?thesis
    using single transient by blast
qed


lemma run_di_1: "resolve 3 reflect0 bus_token di0 = Some (Inr (Built 0), di1)"
  by (simp add: di_defs di_samples numeral_eq_Suc)
lemma run_di_2: "run_ops reflect0 [Resolve 3 useCase_token] di1 = Some di2"
  by (simp add: di_defs di_samples numeral_eq_Suc)
lemma run_di_3: "resolve 3 reflect0 useCase_token di0 = Some (Inr (Built 0), di3)"
  by (simp add: di_defs di_samples numeral_eq_Suc)
lemma run_di_4: "resolve 3 reflect0 useCase_token di3 = Some (Inr (Built 1), di4)"
  by (simp add: di_defs di_samples numeral_eq_Suc)

theorem instance_identity_by_lifecycle_witness:
  "map_option lifecycle (services di0 bus_token) = Some Singleton \<and>
   resolve 3 reflect0 bus_token di0 = Some (Inr (Built 0), di1) \<and>
   run_ops reflect0 [Resolve 3 useCase_token] di1 = Some di2 \<and>
   services di2 bus_token = services di0 bus_token \<and>
   singletons di1 bus_token = Some (Built 0) \<and>
   resolve (Suc (Suc 0)) reflect0 bus_token di2 = Some (Inr (Built 0), di2) \<and>
   map_option lifecycle (services di0 useCase_token) = Some Transient \<and>
   resolve 3 reflect0 useCase_token di0 = Some (Inr (Built 0), di3) \<and>
   run_ops reflect0 [] di3 = Some di3 \<and>
   services di3 useCase_token = services di0 useCase_token \<and>
   resolve 3 reflect0 useCase_token di3 = Some (Inr (Built 1), di4) \<and>
   Built 1 \<noteq> Built 0 \<and> allocated di3 \<le> 1"
proof -
  obtain db where b: "services di0 bus_token = Some db" "services di2 bus_token = Some db"
    "lifecycle db = Singleton" "token db = bus_token"
    by (simp add: di_defs di_samples)
  obtain du where u: "services di0 useCase_token = Some du" "services di3 useCase_token = Some du"
    "lifecycle du = Transient" "inst du = None" "factory du = None"
    "ctor du = Some (ClassCtor ''UseCase'')"
    by (simp add: di_defs di_samples)
  have e: "run_ops reflect0 [] di3 = Some di3" by simp
  have s: "singletons di1 bus_token = Some (Built 0) \<and>
           resolve (Suc (Suc 0)) reflect0 bus_token di2 = Some (Inr (Built 0), di2)"
    using instance_identity_by_lifecycle[OF b(1) run_di_1 run_di_2 b(2), of 0] b(3,4) by simp
  have t: "Built 1 \<noteq> Built 0 \<and> (\<exists>k. Built 1 = Built k \<and> allocated di3 \<le> k)"
    using instance_identity_by_lifecycle[OF u(1) run_di_3 e u(2), of 3] u(3-6) run_di_4 by simp
  have a: "allocated di3 \<le> 1" using t by auto
  show ?thesis
    using b u run_di_1 run_di_2 run_di_3 run_di_4 e s a by simp
qed

end
